theory Spec2Isabelle
  imports Complex_Main
begin

section \<open>Linear and MLP layers of max.nn.linear\<close>

text \<open>
  A shallow embedding of \<^verbatim>\<open>src/max/nn/linear.py\<close>. Python objects that the code
  mutates or shares (the \<^verbatim>\<open>Weight\<close> tensors) live in an explicit store and are
  named by references; layers are records holding such references. Every
  \<^verbatim>\<open>raise\<close>, failed \<^verbatim>\<open>assert\<close>, out-of-range index and division by zero of the
  source is a value of type \<open>error\<close>.
\<close>

subsection \<open>Errors\<close>

datatype Float8ScaleGranularity = TENSOR | ROWWISE | COLWISE | BLOCK

datatype Float8ScaleOrigin = STATIC | DYNAMIC

datatype DeviceRef = CPU nat | GPU nat

text \<open>The \<^verbatim>\<open>ValueError\<close>s of the module, by the message they carry.\<close>

datatype value_error =
    BiasDeviceMismatch "DeviceRef option" "DeviceRef option"
  | UnsupportedInputScaleGranularity Float8ScaleGranularity
  | UnsupportedWeightScaleGranularity Float8ScaleGranularity
  | NoShardingStrategy
  | EmptyDevices
  | Float8AndBiasUnsupported
  | ShardingStrategyNotSet
  | UnsupportedShardingStrategy

datatype error =
    ValueError value_error
  | AssertionError
  | IndexError
  | ZeroDivisionError
  | ShapeError

definition bind_e :: "error + 'a \<Rightarrow> ('a \<Rightarrow> error + 'b) \<Rightarrow> error + 'b" where
  "bind_e m f = (case m of Inl e \<Rightarrow> Inl e | Inr a \<Rightarrow> f a)"

text \<open>Python's \<^verbatim>\<open>xs[i]\<close> for a non-negative literal index.\<close>

definition index :: "'a list \<Rightarrow> nat \<Rightarrow> error + 'a" where
  "index xs i = (if i < length xs then Inr (xs ! i) else Inl IndexError)"

subsection \<open>Float8 configuration\<close>

datatype DType = float32 | bfloat16 | uint8 | int32

datatype QuantizationEncoding = GPTQ | Q4_0 | Q4_K | Q6_K

record Float8WeightScaleSpec =
  w_granularity :: Float8ScaleGranularity
  w_dtype :: DType

definition is_tensor :: "Float8WeightScaleSpec \<Rightarrow> bool" where
  "is_tensor spec = (w_granularity spec = TENSOR)"

definition is_rowwise :: "Float8WeightScaleSpec \<Rightarrow> bool" where
  "is_rowwise spec = (w_granularity spec = ROWWISE)"

definition is_colwise :: "Float8WeightScaleSpec \<Rightarrow> bool" where
  "is_colwise spec = (w_granularity spec = COLWISE)"

definition is_block :: "Float8WeightScaleSpec \<Rightarrow> bool" where
  "is_block spec = (w_granularity spec = BLOCK)"

record Float8InputScaleSpec =
  in_granularity :: Float8ScaleGranularity
  in_origin :: Float8ScaleOrigin
  in_dtype :: DType
  activation_scale_ub :: "real option"

record Float8Config =
  cfg_input_scale :: Float8InputScaleSpec
  cfg_weight_scale :: Float8WeightScaleSpec
  mlp_in_float8 :: "int set"
  attn_qkv_in_float8 :: "int set"
  embedding_output_dtype :: "DType option"
  quant_method :: "string option"

text \<open>
  \<^verbatim>\<open>Float8Config\<close> is a plain \<^verbatim>\<open>@dataclass\<close> without \<^verbatim>\<open>__post_init__\<close>: the
  generated constructor stores its six arguments and has no failing branch.
\<close>

definition Float8Config_init ::
  "Float8InputScaleSpec \<Rightarrow> Float8WeightScaleSpec \<Rightarrow> int set \<Rightarrow> int set \<Rightarrow>
   DType option \<Rightarrow> string option \<Rightarrow> error + Float8Config" where
  "Float8Config_init inp ws mlp attn emb qm =
     Inr \<lparr>cfg_input_scale = inp, cfg_weight_scale = ws, mlp_in_float8 = mlp,
          attn_qkv_in_float8 = attn, embedding_output_dtype = emb, quant_method = qm\<rparr>"

definition is_static :: "Float8Config \<Rightarrow> bool" where
  "is_static cfg = (in_origin (cfg_input_scale cfg) = STATIC)"

definition is_dynamic :: "Float8Config \<Rightarrow> bool" where
  "is_dynamic cfg = (in_origin (cfg_input_scale cfg) = DYNAMIC)"

subsection \<open>Sharding strategies and weights\<close>

text \<open>
  Modelled from the spec: the class \<^verbatim>\<open>ShardingStrategy\<close> of \<^verbatim>\<open>max.graph\<close>, which is
  not among the source files. The spec describes it as a tagged value
  (replicate, rowwise, colwise, head-aware colwise, tensor-parallel) with a
  fixed device count, compared structurally by kind and device count.
\<close>

datatype strategy_kind = Replicate | Rowwise | Colwise | HeadAwareColwise | TensorParallel

record ShardingStrategy =
  kind :: strategy_kind
  num_devices :: int

definition ShardingStrategy_replicate :: "int \<Rightarrow> ShardingStrategy" where
  "ShardingStrategy_replicate n = \<lparr>kind = Replicate, num_devices = n\<rparr>"

definition ShardingStrategy_rowwise :: "int \<Rightarrow> ShardingStrategy" where
  "ShardingStrategy_rowwise n = \<lparr>kind = Rowwise, num_devices = n\<rparr>"

definition ShardingStrategy_columnwise :: "int \<Rightarrow> ShardingStrategy" where
  "ShardingStrategy_columnwise n = \<lparr>kind = Colwise, num_devices = n\<rparr>"

definition strategy_is_replicate :: "ShardingStrategy \<Rightarrow> bool" where
  "strategy_is_replicate s = (kind s = Replicate)"

definition strategy_is_rowwise :: "ShardingStrategy \<Rightarrow> bool" where
  "strategy_is_rowwise s = (kind s = Rowwise)"

definition strategy_is_colwise :: "ShardingStrategy \<Rightarrow> bool" where
  "strategy_is_colwise s = (kind s = Colwise)"

definition strategy_is_head_aware_colwise :: "ShardingStrategy \<Rightarrow> bool" where
  "strategy_is_head_aware_colwise s = (kind s = HeadAwareColwise)"

definition strategy_is_tensor_parallel :: "ShardingStrategy \<Rightarrow> bool" where
  "strategy_is_tensor_parallel s = (kind s = TensorParallel)"

text \<open>
  A \<^verbatim>\<open>Weight\<close> object: the attributes the module reads and the one it assigns
  (\<^verbatim>\<open>sharding_strategy\<close>).
\<close>

record Weight =
  name :: string
  dtype :: DType
  shape :: "int list"
  wdevice :: "DeviceRef option"
  quantization_encoding :: "QuantizationEncoding option"
  sharding_strategy :: "ShardingStrategy option"

text \<open>
  The store of \<^verbatim>\<open>Weight\<close> objects. A reference is a position in the store; creating
  an object appends it, so a new object has an identity no earlier one has, and two
  attributes hold the same object exactly when they hold the same reference.
\<close>

type_synonym ref = nat

type_synonym heap = "Weight list"

definition alloc :: "heap \<Rightarrow> Weight \<Rightarrow> ref \<times> heap" where
  "alloc h w = (length h, h @ [w])"

text \<open>
  The class \<^verbatim>\<open>Weight\<close> itself belongs to \<^verbatim>\<open>max.graph\<close> and is not among the source
  files, so what its constructor stores and what the partition rule of a strategy
  makes of a weight are parameters of the model: \<open>new_Weight\<close> takes the keyword
  arguments \<^verbatim>\<open>name, dtype, shape, device, quantization_encoding\<close>, and
  \<open>partition_rule s w i d\<close> is shard number \<open>i\<close> of \<open>w\<close> under \<open>s\<close>, placed on \<open>d\<close>.
\<close>

record graph_lib =
  new_Weight :: "string \<Rightarrow> DType \<Rightarrow> int list \<Rightarrow> DeviceRef option \<Rightarrow>
                 QuantizationEncoding option \<Rightarrow> Weight"
  partition_rule :: "ShardingStrategy \<Rightarrow> Weight \<Rightarrow> nat \<Rightarrow> DeviceRef \<Rightarrow> Weight"

text \<open>
  Modelled from the spec: the constructor of \<^verbatim>\<open>Weight\<close> ("allocate(name, dtype,
  shape, device, encoding)": a named tensor with data type, shape, owning device and
  optional quantization encoding), with no sharding strategy yet.
\<close>

definition Weight_init ::
  "string \<Rightarrow> DType \<Rightarrow> int list \<Rightarrow> DeviceRef option \<Rightarrow> QuantizationEncoding option \<Rightarrow> Weight" where
  "Weight_init n dt sh dev qe =
     \<lparr>name = n, dtype = dt, shape = sh, wdevice = dev, quantization_encoding = qe,
      sharding_strategy = None\<rparr>"

text \<open>
  Modelled from the spec: \<^verbatim>\<open>Weight.shard(devices)\<close> of \<^verbatim>\<open>max.graph\<close> ("produces N
  new Weight entities, each owned by one device-shard", "using the strategy's
  partition rule"). It needs the weight's strategy, and creates one new object per
  device, in the order of the devices.
\<close>

definition Weight_shard ::
  "graph_lib \<Rightarrow> heap \<Rightarrow> ref \<Rightarrow> DeviceRef list \<Rightarrow> error + (ref list \<times> heap)" where
  "Weight_shard G h r devs =
     (case sharding_strategy (h ! r) of
        None \<Rightarrow> Inl (ValueError NoShardingStrategy)
      | Some s \<Rightarrow>
          Inr ([length h ..< length h + length devs],
               h @ map (\<lambda>(i, d). partition_rule G s (h ! r) i d) (enumerate 0 devs)))"

subsection \<open>Linear\<close>

record Linear =
  weight :: ref
  bias :: "ref option"
  input_scale :: "ref option"
  weight_scale :: "ref option"
  device :: "DeviceRef option"
  clip_weight :: "real option"
  float8_config :: "Float8Config option"

text \<open>\<^verbatim>\<open>f"{name}.weight" if name else "weight"\<close>: an empty name is falsy as \<^verbatim>\<open>None\<close> is.\<close>

definition attr_name :: "string option \<Rightarrow> string \<Rightarrow> string" where
  "attr_name nm suffix =
     (case nm of
        None \<Rightarrow> suffix
      | Some n \<Rightarrow> if n = [] then suffix else n @ ''.'' @ suffix)"

text \<open>\<^verbatim>\<open>Linear.__init__\<close>, lines 245 to 271: the weight, and the bias with its device check.\<close>

definition Linear_init_weights ::
  "graph_lib \<Rightarrow> heap \<Rightarrow> int \<Rightarrow> int \<Rightarrow> DType \<Rightarrow> DeviceRef option \<Rightarrow> bool \<Rightarrow>
   QuantizationEncoding option \<Rightarrow> Float8Config option \<Rightarrow> string option \<Rightarrow> real option \<Rightarrow>
   error + (Linear \<times> heap)" where
  "Linear_init_weights G h in_dim out_dim dt dev has_bias qe f8 nm clip =
     (let (w, h1) = alloc h (new_Weight G (attr_name nm ''weight'') dt [out_dim, in_dim] dev qe);
          self = \<lparr>weight = w, bias = None, input_scale = None, weight_scale = None,
                  device = dev, clip_weight = clip, float8_config = f8\<rparr>
      in if has_bias then
           (let (b, h2) = alloc h1 (new_Weight G (attr_name nm ''bias'') dt [out_dim] dev qe)
            in if wdevice (h2 ! b) \<noteq> wdevice (h2 ! w)
               then Inl (ValueError (BiasDeviceMismatch (wdevice (h2 ! b)) (wdevice (h2 ! w))))
               else Inr (self\<lparr>bias := Some b\<rparr>, h2))
         else Inr (self, h1))"

text \<open>Lines 273 to 312: the scales of a float8 layer.\<close>

definition Linear_init_float8 ::
  "graph_lib \<Rightarrow> heap \<Rightarrow> Linear \<Rightarrow> QuantizationEncoding option \<Rightarrow> Float8Config \<Rightarrow>
   string option \<Rightarrow> error + (Linear \<times> heap)" where
  "Linear_init_float8 G h self qe cfg nm =
     (let (self1, h1) =
            (if is_static cfg then
               (let (r, h') = alloc h (new_Weight G (attr_name nm ''input_scale'')
                                        (in_dtype (cfg_input_scale cfg)) [] (Some (CPU 0)) qe)
                in (self\<lparr>input_scale := Some r\<rparr>, h'))
             else (self, h))
      in if in_granularity (cfg_input_scale cfg) \<notin> {TENSOR, COLWISE}
         then Inl (ValueError (UnsupportedInputScaleGranularity
                                 (in_granularity (cfg_input_scale cfg))))
         else
           bind_e
             (if is_rowwise (cfg_weight_scale cfg) then
                bind_e (index (shape (h1 ! weight self1)) 0) (\<lambda>d. Inr [d, 1])
              else if is_tensor (cfg_weight_scale cfg) then Inr []
              else Inl (ValueError (UnsupportedWeightScaleGranularity
                                      (w_granularity (cfg_weight_scale cfg)))))
             (\<lambda>weight_scale_shape.
                let (r, h2) = alloc h1 (new_Weight G (attr_name nm ''weight_scale'')
                                         (w_dtype (cfg_weight_scale cfg)) weight_scale_shape
                                         (Some (CPU 0)) qe)
                in Inr (self1\<lparr>weight_scale := Some r\<rparr>, h2)))"

definition Linear_init ::
  "graph_lib \<Rightarrow> heap \<Rightarrow> int \<Rightarrow> int \<Rightarrow> DType \<Rightarrow> DeviceRef option \<Rightarrow> bool \<Rightarrow>
   QuantizationEncoding option \<Rightarrow> Float8Config option \<Rightarrow> string option \<Rightarrow> real option \<Rightarrow>
   error + (Linear \<times> heap)" where
  "Linear_init G h in_dim out_dim dt dev has_bias qe f8 nm clip =
     bind_e (Linear_init_weights G h in_dim out_dim dt dev has_bias qe f8 nm clip)
       (\<lambda>(self, h1).
          case f8 of
            None \<Rightarrow> Inr (self, h1)
          | Some cfg \<Rightarrow> Linear_init_float8 G h1 self qe cfg nm)"

text \<open>The property \<^verbatim>\<open>sharding_strategy\<close>: its getter, and its setter (lines 319 to 356).\<close>

definition Linear_sharding_strategy :: "heap \<Rightarrow> Linear \<Rightarrow> ShardingStrategy option" where
  "Linear_sharding_strategy h self = sharding_strategy (h ! weight self)"

definition set_strategy :: "heap \<Rightarrow> ref \<Rightarrow> ShardingStrategy \<Rightarrow> heap" where
  "set_strategy h r s = h[r := (h ! r)\<lparr>sharding_strategy := Some s\<rparr>]"

text \<open>
  \<^verbatim>\<open>if self.weight_scale:\<close> and \<^verbatim>\<open>if self.bias:\<close> test an optional \<^verbatim>\<open>Weight\<close>; they are
  read as tests for presence.
\<close>

definition Linear_set_sharding_strategy ::
  "heap \<Rightarrow> Linear \<Rightarrow> ShardingStrategy \<Rightarrow> error + heap" where
  "Linear_set_sharding_strategy h self strategy =
     (let h1 = set_strategy h (weight self) strategy
      in bind_e
           (case weight_scale self of
              None \<Rightarrow> Inr h1
            | Some ws \<Rightarrow>
                (case float8_config self of
                   None \<Rightarrow> Inl AssertionError
                 | Some cfg \<Rightarrow>
                     (let should_replicate =
                            (is_tensor (cfg_weight_scale cfg) \<or>
                             ((strategy_is_colwise strategy \<or>
                               strategy_is_head_aware_colwise strategy) \<and>
                              is_rowwise (cfg_weight_scale cfg)))
                      in Inr (set_strategy h1 ws
                                (if should_replicate
                                 then ShardingStrategy_replicate (num_devices strategy)
                                 else strategy)))))
           (\<lambda>h2. case bias self of
                    None \<Rightarrow> Inr h2
                  | Some b \<Rightarrow>
                      Inr (set_strategy h2 b
                             (if strategy_is_rowwise strategy then strategy
                              else ShardingStrategy_replicate (num_devices strategy)))))"

text \<open>
  \<^verbatim>\<open>Linear.shard\<close>, lines 372 to 378: the \<^verbatim>\<open>out_dim\<close> handed to the constructor of every
  shard. \<^verbatim>\<open>//\<close> is floor division and raises on a zero divisor.
\<close>

definition shard_out_dim :: "heap \<Rightarrow> Linear \<Rightarrow> ShardingStrategy \<Rightarrow> error + int" where
  "shard_out_dim h self s =
     (if strategy_is_rowwise s then
        bind_e (index (shape (h ! weight self)) 0)
          (\<lambda>d. if num_devices s = 0 then Inl ZeroDivisionError
                else Inr (d div num_devices s))
      else index (shape (h ! weight self)) 0)"

text \<open>
  The body of the loop of \<^verbatim>\<open>Linear.shard\<close> for the shard number \<open>shard_idx\<close>. First
  lines 410 to 442: the attributes of the fresh layer \<open>sharded\<close> are replaced by the
  shards, or by the scales of the original.
\<close>

definition shard_assign ::
  "Linear \<Rightarrow> ShardingStrategy \<Rightarrow> ref list \<Rightarrow> ref list \<Rightarrow> nat \<Rightarrow> ref \<Rightarrow> heap \<Rightarrow> Linear \<Rightarrow>
   error + Linear" where
  "shard_assign self s sharded_biases sharded_weight_scales shard_idx weight_shard h sharded =
     bind_e
       (if bias self \<noteq> None then
          (let is_colwise = (strategy_is_colwise s \<or> strategy_is_head_aware_colwise s)
           in if is_colwise \<and> shard_idx > 0
              then Inr (sharded\<lparr>weight := weight_shard, bias := None\<rparr>)
              else bind_e (index sharded_biases shard_idx)
                     (\<lambda>b. Inr (sharded\<lparr>weight := weight_shard, bias := Some b\<rparr>)))
        else Inr (sharded\<lparr>weight := weight_shard\<rparr>))
       (\<lambda>sharded.
          case float8_config self of
            None \<Rightarrow> Inr sharded
          | Some cfg \<Rightarrow>
              bind_e
                (case input_scale self of
                   None \<Rightarrow> Inr sharded
                 | Some isc \<Rightarrow>
                     if length (shape (h ! isc)) = 0
                     then Inr (sharded\<lparr>input_scale := Some isc\<rparr>)
                     else Inl AssertionError)
                (\<lambda>sharded.
                   case weight_scale self of
                     None \<Rightarrow> Inr sharded
                   | Some wsc \<Rightarrow>
                       if length (shape (h ! wsc)) = 0
                       then Inr (sharded\<lparr>weight_scale := Some wsc\<rparr>)
                       else bind_e (index sharded_weight_scales shard_idx)
                              (\<lambda>r. Inr (sharded\<lparr>weight_scale := Some r\<rparr>))))"

text \<open>
  Lines 399 to 444: a new \<^verbatim>\<open>Linear\<close> on \<open>dev\<close> with the configuration of the original,
  then the assignments above.
\<close>

definition shard_one ::
  "graph_lib \<Rightarrow> Linear \<Rightarrow> ShardingStrategy \<Rightarrow> int \<Rightarrow> ref list \<Rightarrow> ref list \<Rightarrow> nat \<Rightarrow>
   DeviceRef \<Rightarrow> ref \<Rightarrow> heap \<Rightarrow> error + (Linear \<times> heap)" where
  "shard_one G self s out_dim sharded_biases sharded_weight_scales shard_idx dev weight_shard h =
     bind_e (index (shape (h ! weight self)) 1) (\<lambda>in_dim.
     bind_e (Linear_init G h in_dim out_dim (dtype (h ! weight self)) (Some dev)
               (bias self \<noteq> None) None (float8_config self) None (clip_weight self))
       (\<lambda>(sharded, h1).
     bind_e (shard_assign self s sharded_biases sharded_weight_scales shard_idx weight_shard
               h1 sharded)
       (\<lambda>sharded. Inr (sharded, h1))))"

fun shard_loop ::
  "graph_lib \<Rightarrow> Linear \<Rightarrow> ShardingStrategy \<Rightarrow> int \<Rightarrow> ref list \<Rightarrow> ref list \<Rightarrow> nat \<Rightarrow>
   (DeviceRef \<times> ref) list \<Rightarrow> heap \<Rightarrow> error + (Linear list \<times> heap)" where
  "shard_loop G self s out_dim sbs swss shard_idx [] h = Inr ([], h)"
| "shard_loop G self s out_dim sbs swss shard_idx ((dev, weight_shard) # rest) h =
     bind_e (shard_one G self s out_dim sbs swss shard_idx dev weight_shard h)
       (\<lambda>(sharded, h1).
          bind_e (shard_loop G self s out_dim sbs swss (Suc shard_idx) rest h1)
            (\<lambda>(shards, h2). Inr (sharded # shards, h2)))"

text \<open>\<^verbatim>\<open>Linear.shard(devices)\<close>, with \<^verbatim>\<open>devices\<close> a list.\<close>

definition Linear_shard ::
  "graph_lib \<Rightarrow> heap \<Rightarrow> Linear \<Rightarrow> DeviceRef list \<Rightarrow> error + (Linear list \<times> heap)" where
  "Linear_shard G h self devs =
     (case sharding_strategy (h ! weight self) of
        None \<Rightarrow> Inl (ValueError NoShardingStrategy)
      | Some s \<Rightarrow>
          bind_e (shard_out_dim h self s) (\<lambda>out_dim.
          bind_e (Weight_shard G h (weight self) devs) (\<lambda>(sharded_weights, h1).
          bind_e (case bias self of
                    None \<Rightarrow> Inr ([], h1)
                  | Some b \<Rightarrow> Weight_shard G h1 b devs) (\<lambda>(sharded_biases, h2).
          bind_e (case (float8_config self, weight_scale self) of
                    (Some cfg, Some wsc) \<Rightarrow>
                      if length (shape (h2 ! wsc)) > 0 then Weight_shard G h2 wsc devs
                      else Inr ([], h2)
                  | _ \<Rightarrow> Inr ([], h2)) (\<lambda>(sharded_weight_scales, h3).
          shard_loop G self s out_dim sharded_biases sharded_weight_scales 0
            (zip devs sharded_weights) h3)))))"


text \<open>
  A layer is well formed in a store when its attributes are objects of the store, no
  object serves as two attributes, and scales come with a float8 configuration
  ("Weight scale should only be added when a float8 config is passed").
\<close>

definition wf_Linear :: "heap \<Rightarrow> Linear \<Rightarrow> bool" where
  "wf_Linear h self =
     (weight self < length h \<and>
      (case bias self of None \<Rightarrow> True | Some b \<Rightarrow> b < length h \<and> b \<noteq> weight self) \<and>
      (case input_scale self of
         None \<Rightarrow> True
       | Some r \<Rightarrow> r < length h \<and> r \<noteq> weight self \<and> bias self \<noteq> Some r \<and>
                   float8_config self \<noteq> None) \<and>
      (case weight_scale self of
         None \<Rightarrow> True
       | Some r \<Rightarrow> r < length h \<and> r \<noteq> weight self \<and> bias self \<noteq> Some r \<and>
                   input_scale self \<noteq> Some r \<and> float8_config self \<noteq> None))"

subsection \<open>ColumnParallelLinear\<close>

text \<open>
  The keyword arguments \<^verbatim>\<open>**kwargs\<close> that \<^verbatim>\<open>ColumnParallelLinear.__init__\<close> hands on to
  \<^verbatim>\<open>Linear.__init__\<close>. \<open>None\<close> stands for a keyword that is absent or passed as
  \<^verbatim>\<open>None\<close>: \<^verbatim>\<open>kwargs.get\<close> gives \<^verbatim>\<open>None\<close> for both, and \<^verbatim>\<open>Linear.__init__\<close> treats
  \<^verbatim>\<open>has_bias=None\<close> as its default \<^verbatim>\<open>False\<close>.
\<close>

record kwargs =
  kw_has_bias :: "bool option"
  kw_quantization_encoding :: "QuantizationEncoding option"
  kw_float8_config :: "Float8Config option"
  kw_name :: "string option"
  kw_clip_weight :: "real option"

record ColumnParallelLinear = Linear +
  cpl_devices :: "DeviceRef list"
  cpl_num_devices :: int
  distributed_linear_layers :: "Linear list"

definition Linear_init_kwargs ::
  "graph_lib \<Rightarrow> heap \<Rightarrow> int \<Rightarrow> int \<Rightarrow> DType \<Rightarrow> DeviceRef \<Rightarrow> kwargs \<Rightarrow>
   error + (Linear \<times> heap)" where
  "Linear_init_kwargs G h in_dim out_dim dt dev kw =
     Linear_init G h in_dim out_dim dt (Some dev) (kw_has_bias kw = Some True)
       (kw_quantization_encoding kw) (kw_float8_config kw) (kw_name kw) (kw_clip_weight kw)"

text \<open>Lines 605 to 612: one ordinary \<^verbatim>\<open>Linear\<close> per device, holding that device's shards.\<close>

fun distributed_layers ::
  "graph_lib \<Rightarrow> int \<Rightarrow> int \<Rightarrow> DType \<Rightarrow> kwargs \<Rightarrow> ref list \<Rightarrow> ref list option \<Rightarrow> nat \<Rightarrow>
   DeviceRef list \<Rightarrow> heap \<Rightarrow> error + (Linear list \<times> heap)" where
  "distributed_layers G in_dim out_dim dt kw weight_shards bias_shards n [] h = Inr ([], h)"
| "distributed_layers G in_dim out_dim dt kw weight_shards bias_shards n (dev # rest) h =
     bind_e (Linear_init_kwargs G h in_dim out_dim dt dev kw) (\<lambda>(layer, h1).
     bind_e (index weight_shards n) (\<lambda>w.
     bind_e (case bias_shards of
               None \<Rightarrow> Inr (layer\<lparr>device := Some dev, weight := w\<rparr>)
             | Some bs \<Rightarrow>
                 bind_e (index bs n)
                   (\<lambda>b. Inr (layer\<lparr>device := Some dev, weight := w, bias := Some b\<rparr>)))
       (\<lambda>layer.
     bind_e (distributed_layers G in_dim out_dim dt kw weight_shards bias_shards (Suc n) rest h1)
       (\<lambda>(layers, h2). Inr (layer # layers, h2)))))"

text \<open>
  \<^verbatim>\<open>ColumnParallelLinear.__init__\<close>. \<^verbatim>\<open>if tied_weight\<close> is read as a test for presence.
  The call \<^verbatim>\<open>set_shared_weight\<close> is bookkeeping of \<^verbatim>\<open>Module\<close> and leaves the attributes
  modelled here alone.
\<close>

definition ColumnParallelLinear_init ::
  "graph_lib \<Rightarrow> heap \<Rightarrow> int \<Rightarrow> int \<Rightarrow> DType \<Rightarrow> DeviceRef list \<Rightarrow> ref option \<Rightarrow> kwargs \<Rightarrow>
   error + (ColumnParallelLinear \<times> heap)" where
  "ColumnParallelLinear_init G h in_dim out_dim dt devs tied_weight kw =
     (if length devs = 0 then Inl (ValueError EmptyDevices)
      else if tied_weight \<noteq> None \<and>
              (kw_float8_config kw \<noteq> None \<or> kw_has_bias kw \<noteq> None)
      then Inl (ValueError Float8AndBiasUnsupported)
      else
        bind_e (Linear_init_kwargs G h in_dim out_dim dt (devs ! 0) kw) (\<lambda>(self, h1).
        let self = (case tied_weight of None \<Rightarrow> self | Some tw \<Rightarrow> self\<lparr>weight := tw\<rparr>);
            n = int (length devs)
        in
        bind_e (Linear_set_sharding_strategy h1 self (ShardingStrategy_rowwise n)) (\<lambda>h2.
        bind_e (Weight_shard G h2 (weight self) devs) (\<lambda>(weight_shards, h3).
        bind_e (case bias self of
                  None \<Rightarrow> Inr (None, h3)
                | Some b \<Rightarrow> bind_e (Weight_shard G h3 b devs) (\<lambda>(bs, h4). Inr (Some bs, h4)))
          (\<lambda>(bias_shards, h4).
        bind_e (distributed_layers G in_dim out_dim dt kw weight_shards bias_shards 0 devs h4)
          (\<lambda>(layers, h5).
             Inr (\<lparr>weight = weight self, bias = bias self, input_scale = input_scale self,
                   weight_scale = weight_scale self, device = device self,
                   clip_weight = clip_weight self, float8_config = float8_config self,
                   cpl_devices = devs, cpl_num_devices = n,
                   distributed_linear_layers = layers\<rparr>, h5)))))))"

subsection \<open>DistributedGemmConfig\<close>

record DistributedGemmConfig =
  enable_matmul_allreduce :: bool

text \<open>
  \<^verbatim>\<open>DistributedGemmConfig.generate()\<close>. The process environment is a parameter:
  \<open>environ v\<close> is what \<^verbatim>\<open>os.getenv(v)\<close> returns. \<^verbatim>\<open>bool\<close> of a string is true exactly for
  the non-empty ones.
\<close>

definition DistributedGemmConfig_generate ::
  "(string \<Rightarrow> string option) \<Rightarrow> DistributedGemmConfig option" where
  "DistributedGemmConfig_generate environ =
     (let opts_env = environ ''LLAMA_ENABLE_DIST_GEMM_KERNELS''
      in case opts_env of
           None \<Rightarrow> Some \<lparr>enable_matmul_allreduce = True\<rparr>
         | Some v \<Rightarrow>
             (let enable = (v \<noteq> []) in Some \<lparr>enable_matmul_allreduce = enable\<rparr>))"

subsection \<open>Tensors and kernels\<close>

text \<open>
  A tensor value of the graph: its device, its shape, and its entries as the list of its
  vectors along the last axis, in row-major order (a matrix is the list of its rows, a
  vector a single row). The scalar type \<open>'a\<close> and the arithmetic on it are left open.
\<close>

record 'a tensor =
  tdevice :: "DeviceRef option"
  tshape :: "int list"
  rows :: "'a list list"

text \<open>
  The kernels come from \<^verbatim>\<open>max.graph.ops\<close>, \<^verbatim>\<open>.kernels\<close> and \<^verbatim>\<open>.clamp\<close>, none of which is
  among the source files; the spec lists them as external collaborators. The scalar
  operations inside the plain kernels (\<open>kdot\<close> for the inner product of a row of the
  input with a row of the weight, \<open>kadd\<close>, \<open>kmul\<close>, \<open>kclamp lo hi\<close>, the activation
  functions) and the quantized kernels as a whole are parameters.
\<close>

record 'a kernels =
  kdot :: "'a list \<Rightarrow> 'a list \<Rightarrow> 'a"
  kadd :: "'a \<Rightarrow> 'a \<Rightarrow> 'a"
  kmul :: "'a \<Rightarrow> 'a \<Rightarrow> 'a"
  kclamp :: "real \<Rightarrow> real \<Rightarrow> 'a \<Rightarrow> 'a"
  ksilu :: "'a \<Rightarrow> 'a"
  kgelu :: "'a \<Rightarrow> 'a"
  kgelu_tanh :: "'a \<Rightarrow> 'a"
  krelu :: "'a \<Rightarrow> 'a"
  ktanh :: "'a \<Rightarrow> 'a"
  ksigmoid :: "'a \<Rightarrow> 'a"
  qmatmul :: "QuantizationEncoding \<Rightarrow> 'a tensor \<Rightarrow> 'a tensor \<Rightarrow> error + 'a tensor"
  quantize_static_scaled_float8 :: "'a tensor \<Rightarrow> 'a tensor \<Rightarrow> error + 'a tensor"
  matmul_static_scaled_float8 ::
    "'a tensor \<Rightarrow> 'a tensor \<Rightarrow> 'a tensor \<Rightarrow> 'a tensor \<Rightarrow> error + 'a tensor"
  quantize_dynamic_scaled_float8 :: "'a tensor \<Rightarrow> DType \<Rightarrow> error + ('a tensor \<times> 'a tensor)"
  dynamic_scaled_matmul ::
    "'a tensor \<Rightarrow> 'a tensor \<Rightarrow> 'a tensor \<Rightarrow> 'a tensor \<Rightarrow> DType \<Rightarrow> error + 'a tensor"
  swish_glu :: "'a tensor \<Rightarrow> 'a tensor \<Rightarrow> 'a tensor \<Rightarrow> error + 'a tensor"

text \<open>
  A weight used as a tensor: device and shape are those of the \<^verbatim>\<open>Weight\<close> object, the
  entries are those the runtime binds to it, given by the valuation \<open>V\<close>.
\<close>

definition tensor_of :: "(ref \<Rightarrow> 'a list list) \<Rightarrow> heap \<Rightarrow> ref \<Rightarrow> 'a tensor" where
  "tensor_of V h r = \<lparr>tdevice = wdevice (h ! r), tshape = shape (h ! r), rows = V r\<rparr>"

text \<open>\<^verbatim>\<open>t.to(device)\<close>: the same entries on \<open>device\<close>.\<close>

definition to_device :: "'a tensor \<Rightarrow> DeviceRef \<Rightarrow> 'a tensor" where
  "to_device t d = t\<lparr>tdevice := Some d\<rparr>"

text \<open>An elementwise operation (an activation function, \<^verbatim>\<open>clamp\<close>).\<close>

definition tensor_map :: "('a \<Rightarrow> 'a) \<Rightarrow> 'a tensor \<Rightarrow> 'a tensor" where
  "tensor_map f t = t\<lparr>rows := map (map f) (rows t)\<rparr>"

text \<open>
  Modelled from the spec: the kernel \<^verbatim>\<open>matmul(x, weight\<^sup>T) -> y\<close>, written \<^verbatim>\<open>x @ w.T\<close> in
  the source. For \<open>x\<close> of shape \<open>[..., in]\<close> and \<open>w\<close> of shape \<open>[out, in]\<close> the result has
  shape \<open>[..., out]\<close>; its entry for a row of \<open>x\<close> and a row of \<open>w\<close> is their inner
  product. Other shapes are refused.
\<close>

definition matmul_T :: "'a kernels \<Rightarrow> 'a tensor \<Rightarrow> 'a tensor \<Rightarrow> error + 'a tensor" where
  "matmul_T K x w =
     (case tshape w of
        [out, inn] \<Rightarrow>
          if tshape x \<noteq> [] \<and> last (tshape x) = inn
          then Inr \<lparr>tdevice = tdevice x, tshape = butlast (tshape x) @ [out],
                    rows = map (\<lambda>r. map (kdot K r) (rows w)) (rows x)\<rparr>
          else Inl ShapeError
      | _ \<Rightarrow> Inl ShapeError)"

text \<open>
  Modelled from the spec: \<^verbatim>\<open>ops.concat((a, b))\<close>, concatenation along axis 0 of two
  tensors that agree on the other axes.
\<close>

definition concat0 :: "'a tensor \<Rightarrow> 'a tensor \<Rightarrow> error + 'a tensor" where
  "concat0 a b =
     (case (tshape a, tshape b) of
        (da # ra, db # rb) \<Rightarrow>
          if ra = rb
          then Inr \<lparr>tdevice = tdevice a, tshape = (da + db) # ra,
                    rows = (if ra = [] then [concat (rows a @ rows b)]
                            else rows a @ rows b)\<rparr>
          else Inl ShapeError
      | _ \<Rightarrow> Inl ShapeError)"

text \<open>
  Modelled from the spec: adding a bias ("add it to the result, broadcasting over
  leading dimensions"): a vector of shape \<open>[n]\<close> added to every row of a tensor of shape
  \<open>[..., n]\<close>.
\<close>

definition add_bias :: "'a kernels \<Rightarrow> 'a tensor \<Rightarrow> 'a tensor \<Rightarrow> error + 'a tensor" where
  "add_bias K t b =
     (if tshape t \<noteq> [] \<and> tshape b = [last (tshape t)]
      then (case rows b of
              [br] \<Rightarrow> Inr (t\<lparr>rows := map (\<lambda>r. map2 (kadd K) r br) (rows t)\<rparr>)
            | _ \<Rightarrow> Inl ShapeError)
      else Inl ShapeError)"

text \<open>Modelled from the spec: the elementwise product of two tensors of one shape.\<close>

definition tensor_mul :: "'a kernels \<Rightarrow> 'a tensor \<Rightarrow> 'a tensor \<Rightarrow> error + 'a tensor" where
  "tensor_mul K a b =
     (if tshape a = tshape b
      then Inr (a\<lparr>rows := map2 (map2 (kmul K)) (rows a) (rows b)\<rparr>)
      else Inl ShapeError)"

text \<open>
  Modelled from the spec: \<^verbatim>\<open>ops.split(t, [f, f], axis=1)\<close> ("split that output back
  into gate/up halves"). Axis 1 must exist and have size \<open>f + f\<close>. For a matrix the
  halves are the first \<open>f\<close> and the last \<open>f\<close> entries of every row; for a higher rank
  axis 1 is not the last axis, and the halves are made of whole rows: of each of the
  \<open>d0\<close> blocks of the tensor, the first and the last \<open>f * inner\<close> rows.
\<close>

definition split_axis1 :: "'a tensor \<Rightarrow> int \<Rightarrow> error + ('a tensor \<times> 'a tensor)" where
  "split_axis1 t f =
     (case tshape t of
        d0 # d1 # rest \<Rightarrow>
          if 0 \<le> f \<and> d1 = f + f then
            (if rest = [] then
               Inr (t\<lparr>tshape := [d0, f], rows := map (take (nat f)) (rows t)\<rparr>,
                    t\<lparr>tshape := [d0, f], rows := map (drop (nat f)) (rows t)\<rparr>)
             else
               (let inner = nat (prod_list (butlast rest));
                    blocks = map (\<lambda>i. take (nat d1 * inner) (drop (i * (nat d1 * inner)) (rows t)))
                               [0 ..< nat d0]
                in Inr (t\<lparr>tshape := d0 # f # rest,
                          rows := concat (map (take (nat f * inner)) blocks)\<rparr>,
                        t\<lparr>tshape := d0 # f # rest,
                          rows := concat (map (drop (nat f * inner)) blocks)\<rparr>)))
          else Inl ShapeError
      | _ \<Rightarrow> Inl ShapeError)"

subsection \<open>The forward pass of Linear\<close>

text \<open>
  \<^verbatim>\<open>Linear.__call__\<close>. \<^verbatim>\<open>if self.clip_weight:\<close> is false for \<^verbatim>\<open>None\<close> and for \<^verbatim>\<open>0.0\<close>.
\<close>

definition Linear_call ::
  "'a kernels \<Rightarrow> (ref \<Rightarrow> 'a list list) \<Rightarrow> heap \<Rightarrow> Linear \<Rightarrow> 'a tensor \<Rightarrow> error + 'a tensor" where
  "Linear_call K V h self x =
     (let w = tensor_of V h (weight self);
          w = (case clip_weight self of
                 None \<Rightarrow> w
               | Some c \<Rightarrow> if c \<noteq> 0 then tensor_map (kclamp K (- c) c) w else w)
      in bind_e
           (case quantization_encoding (h ! weight self) of
              Some enc \<Rightarrow> qmatmul K enc x w
            | None \<Rightarrow>
                (case float8_config self of
                   Some cfg \<Rightarrow>
                     (case weight_scale self of
                        None \<Rightarrow> Inl AssertionError
                      | Some wsr \<Rightarrow>
                          (let wscale = tensor_of V h wsr
                           in case input_scale self of
                                Some isr \<Rightarrow>
                                  bind_e (quantize_static_scaled_float8 K x (tensor_of V h isr))
                                    (\<lambda>xq. matmul_static_scaled_float8 K xq w
                                             (tensor_of V h isr) wscale)
                              | None \<Rightarrow>
                                  bind_e (quantize_dynamic_scaled_float8 K x (dtype (h ! wsr)))
                                    (\<lambda>(xq, x_scales).
                                       let wscale = (case device self of
                                                       None \<Rightarrow> wscale
                                                     | Some d \<Rightarrow> to_device wscale d)
                                       in dynamic_scaled_matmul K xq w x_scales wscale bfloat16)))
                 | None \<Rightarrow> matmul_T K x w))
           (\<lambda>res. case bias self of
                     None \<Rightarrow> Inr res
                   | Some b \<Rightarrow> add_bias K res (tensor_of V h b)))"

subsection \<open>MLP\<close>

text \<open>The registry \<^verbatim>\<open>_ACTIVATION_FUNCTIONS\<close>.\<close>

definition ACTIVATION_FUNCTIONS :: "'a kernels \<Rightarrow> string \<Rightarrow> ('a \<Rightarrow> 'a) option" where
  "ACTIVATION_FUNCTIONS K =
     [''silu'' \<mapsto> ksilu K, ''gelu'' \<mapsto> kgelu K, ''gelu_tanh'' \<mapsto> kgelu_tanh K,
      ''relu'' \<mapsto> krelu K, ''tanh'' \<mapsto> ktanh K, ''sigmoid'' \<mapsto> ksigmoid K]"

record 'a MLP =
  mlp_devices :: "DeviceRef list"
  mlp_num_devices :: int
  dist_gemm_config :: "DistributedGemmConfig option"
  hidden_dim :: int
  feed_forward_length :: int
  gate_proj :: Linear
  down_proj :: Linear
  up_proj :: Linear
  mlp_quantization_encoding :: "QuantizationEncoding option"
  mlp_float8_config :: "Float8Config option"
  activation_function_name :: string
  activation_function :: "'a \<Rightarrow> 'a"
  mlp_sharding_strategy :: "ShardingStrategy option"

text \<open>
  \<^verbatim>\<open>MLP.__init__\<close> with the default \<^verbatim>\<open>linear_cls\<close>, the class \<^verbatim>\<open>Linear\<close> itself.
\<close>

definition MLP_init ::
  "graph_lib \<Rightarrow> 'a kernels \<Rightarrow> heap \<Rightarrow> DType \<Rightarrow> QuantizationEncoding option \<Rightarrow> int \<Rightarrow> int \<Rightarrow>
   DeviceRef list \<Rightarrow> bool \<Rightarrow> string \<Rightarrow> Float8Config option \<Rightarrow> DistributedGemmConfig option \<Rightarrow>
   error + ('a MLP \<times> heap)" where
  "MLP_init G K h dt qe hidden ffl devs has_bias act f8 dgc =
     bind_e (index devs 0) (\<lambda>dev0.
     bind_e (Linear_init G h hidden ffl dt (Some dev0) has_bias qe f8 None None) (\<lambda>(gate, h1).
     bind_e (Linear_init G h1 ffl hidden dt (Some dev0) has_bias qe f8 None None) (\<lambda>(down, h2).
     bind_e (Linear_init G h2 hidden ffl dt (Some dev0) has_bias qe f8 None None) (\<lambda>(up, h3).
     case ACTIVATION_FUNCTIONS K act of
       None \<Rightarrow> Inl AssertionError
     | Some fn \<Rightarrow>
         Inr (\<lparr>mlp_devices = devs, mlp_num_devices = int (length devs), dist_gemm_config = dgc,
               hidden_dim = hidden, feed_forward_length = ffl, gate_proj = gate,
               down_proj = down, up_proj = up, mlp_quantization_encoding = qe,
               mlp_float8_config = f8, activation_function_name = act,
               activation_function = fn, mlp_sharding_strategy = None\<rparr>, h3)))))"

text \<open>
  The test of lines 1153 to 1160 that guards the \<^verbatim>\<open>swish_glu\<close> kernel, with its
  literal \<^verbatim>\<open>and False\<close>.
\<close>

definition swish_glu_guard :: "'a MLP \<Rightarrow> 'a tensor \<Rightarrow> bool" where
  "swish_glu_guard self x =
     (bias (gate_proj self) = None \<and> bias (up_proj self) = None \<and>
      length (tshape x) = 2 \<and> tdevice x \<noteq> None \<and> tdevice x \<noteq> Some (CPU 0) \<and> False)"

text \<open>
  Lines 1165 to 1168, the computation without fusion:
  \<^verbatim>\<open>down_proj(activation_function(gate_proj(x)) * up_proj(x))\<close>.
\<close>

definition MLP_unfused_hidden ::
  "'a kernels \<Rightarrow> (ref \<Rightarrow> 'a list list) \<Rightarrow> heap \<Rightarrow> 'a MLP \<Rightarrow> 'a tensor \<Rightarrow> error + 'a tensor" where
  "MLP_unfused_hidden K V h self x =
     bind_e (Linear_call K V h (gate_proj self) x) (\<lambda>gate_out.
     bind_e (Linear_call K V h (up_proj self) x) (\<lambda>up_out.
     tensor_mul K (tensor_map (activation_function self) gate_out) up_out))"

definition MLP_unfused ::
  "'a kernels \<Rightarrow> (ref \<Rightarrow> 'a list list) \<Rightarrow> heap \<Rightarrow> 'a MLP \<Rightarrow> 'a tensor \<Rightarrow> error + 'a tensor" where
  "MLP_unfused K V h self x =
     bind_e (MLP_unfused_hidden K V h self x) (Linear_call K V h (down_proj self))"

text \<open>
  Lines 1170 to 1204, the fused computation of the hidden tensor: one matmul over the
  concatenated gate and up weights (and biases, when both are there), split in two.
\<close>

definition MLP_fused_hidden ::
  "'a kernels \<Rightarrow> (ref \<Rightarrow> 'a list list) \<Rightarrow> heap \<Rightarrow> 'a MLP \<Rightarrow> 'a tensor \<Rightarrow> error + 'a tensor" where
  "MLP_fused_hidden K V h self x =
     bind_e (index (shape (h ! weight (gate_proj self))) 0) (\<lambda>ffl.
     let move = (\<lambda>layer t. case device layer of None \<Rightarrow> t | Some d \<Rightarrow> to_device t d);
         gate_proj_weight = move (gate_proj self) (tensor_of V h (weight (gate_proj self)));
         up_proj_weight = move (up_proj self) (tensor_of V h (weight (up_proj self)))
     in
     bind_e (case (bias (gate_proj self), bias (up_proj self)) of
               (Some gb, Some ub) \<Rightarrow>
                 bind_e (concat0 (move (gate_proj self) (tensor_of V h gb))
                                 (move (up_proj self) (tensor_of V h ub)))
                   (\<lambda>b. Inr (Some b))
             | _ \<Rightarrow> Inr None) (\<lambda>bias_opt.
     bind_e (concat0 gate_proj_weight up_proj_weight) (\<lambda>gate_up.
     bind_e (matmul_T K x gate_up) (\<lambda>prod.
     bind_e (case bias_opt of None \<Rightarrow> Inr prod | Some b \<Rightarrow> add_bias K prod b) (\<lambda>output.
     bind_e (split_axis1 output ffl) (\<lambda>(gate_out, up_out).
     tensor_mul K (tensor_map (activation_function self) gate_out) up_out))))))"

text \<open>\<^verbatim>\<open>MLP.__call__\<close>.\<close>

definition MLP_call ::
  "'a kernels \<Rightarrow> (ref \<Rightarrow> 'a list list) \<Rightarrow> heap \<Rightarrow> 'a MLP \<Rightarrow> 'a tensor \<Rightarrow> error + 'a tensor" where
  "MLP_call K V h self x =
     (if swish_glu_guard self x then
        bind_e (swish_glu K x (tensor_of V h (weight (gate_proj self)))
                  (tensor_of V h (weight (up_proj self))))
          (Linear_call K V h (down_proj self))
      else if mlp_quantization_encoding self \<noteq> None \<or> mlp_float8_config self \<noteq> None then
        MLP_unfused K V h self x
      else
        bind_e (MLP_fused_hidden K V h self x) (\<lambda>hidden.
          case dist_gemm_config self of
            None \<Rightarrow> Linear_call K V h (down_proj self) hidden
          | Some cfg \<Rightarrow>
              if \<not> enable_matmul_allreduce cfg
              then Linear_call K V h (down_proj self) hidden
              else Inr hidden))"

subsection \<open>The deprecated MLPV1\<close>

text \<open>
  \<^verbatim>\<open>LinearV1\<close> holds tensor values. Its projections are taken to be instances of
  \<^verbatim>\<open>LinearV1\<close> itself; the subclasses replace the matmul by a quantized kernel and have
  no part in the test that guards \<^verbatim>\<open>swish_glu\<close>.
\<close>

record 'a LinearV1 =
  v1_weight :: "'a tensor"
  v1_bias :: "'a tensor option"

definition LinearV1_call :: "'a kernels \<Rightarrow> 'a LinearV1 \<Rightarrow> 'a tensor \<Rightarrow> error + 'a tensor" where
  "LinearV1_call K self x =
     (let w = v1_weight self;
          w = (if tdevice w \<noteq> tdevice x then w\<lparr>tdevice := tdevice x\<rparr> else w)
      in bind_e (matmul_T K x w)
           (\<lambda>res. case v1_bias self of
                     None \<Rightarrow> Inr res
                   | Some b \<Rightarrow>
                       add_bias K res
                         (if tdevice b \<noteq> tdevice x then b\<lparr>tdevice := tdevice x\<rparr> else b)))"

record 'a MLPV1 =
  v1_gate_proj :: "'a LinearV1"
  v1_down_proj :: "'a LinearV1"
  v1_up_proj :: "'a LinearV1"

definition swish_glu_guard_V1 :: "'a MLPV1 \<Rightarrow> 'a tensor \<Rightarrow> bool" where
  "swish_glu_guard_V1 self x =
     (v1_bias (v1_gate_proj self) = None \<and> v1_bias (v1_up_proj self) = None \<and>
      length (tshape x) = 2 \<and> tdevice x \<noteq> None \<and> tdevice x \<noteq> Some (CPU 0) \<and> False)"

definition MLPV1_call :: "'a kernels \<Rightarrow> 'a MLPV1 \<Rightarrow> 'a tensor \<Rightarrow> error + 'a tensor" where
  "MLPV1_call K self x =
     (if swish_glu_guard_V1 self x then
        bind_e (swish_glu K x (v1_weight (v1_gate_proj self)) (v1_weight (v1_up_proj self)))
          (LinearV1_call K (v1_down_proj self))
      else
        bind_e (LinearV1_call K (v1_gate_proj self) x) (\<lambda>gate_out.
        bind_e (LinearV1_call K (v1_up_proj self) x) (\<lambda>up_out.
        bind_e (tensor_mul K (tensor_map (ksilu K) gate_out) up_out)
          (LinearV1_call K (v1_down_proj self)))))"

subsection \<open>Conditions on layers and values\<close>


text \<open>
  A layer in plain mode: \<^verbatim>\<open>Linear.__call__\<close> takes its last branch, the ordinary matmul,
  on the weight as it is (no encoding, no float8 configuration, no clipping).
\<close>

definition plain_Linear :: "heap \<Rightarrow> Linear \<Rightarrow> bool" where
  "plain_Linear h layer =
     (quantization_encoding (h ! weight layer) = None \<and> float8_config layer = None \<and>
      (clip_weight layer = None \<or> clip_weight layer = Some 0))"

subsection \<open>Instances\<close>

text \<open>
  Concrete values for the parameters, on which the model is run below: a graph library
  whose \<^verbatim>\<open>Weight\<close> constructor is \<open>Weight_init\<close> and whose partition rule divides the
  partitioned axis by the device count, and kernels over the integers (inner product,
  sum, product; \<open>relu\<close> is \<open>max 0\<close>; the remaining kernels are stand-ins that the runs
  below do not reach).
\<close>

definition example_graph_lib :: graph_lib where
  "example_graph_lib =
     \<lparr>new_Weight = Weight_init,
      partition_rule = (\<lambda>s w i d.
        w\<lparr>shape := (case (kind s, shape w) of
                       (Rowwise, d0 # rest) \<Rightarrow> (d0 div num_devices s) # rest
                     | (Colwise, d0 # d1 # rest) \<Rightarrow> d0 # (d1 div num_devices s) # rest
                     | (HeadAwareColwise, d0 # d1 # rest) \<Rightarrow> d0 # (d1 div num_devices s) # rest
                     | _ \<Rightarrow> shape w),
           wdevice := Some d, sharding_strategy := None\<rparr>)\<rparr>"

definition example_kernels :: "int kernels" where
  "example_kernels =
     \<lparr>kdot = (\<lambda>u v. sum_list (map2 (*) u v)), kadd = (+), kmul = (*),
      kclamp = (\<lambda>lo hi v. max \<lceil>lo\<rceil> (min \<lfloor>hi\<rfloor> v)),
      ksilu = (\<lambda>v. v), kgelu = (\<lambda>v. v), kgelu_tanh = (\<lambda>v. v), krelu = max 0,
      ktanh = (\<lambda>v. v), ksigmoid = (\<lambda>v. v),
      qmatmul = (\<lambda>enc x w. Inr x),
      quantize_static_scaled_float8 = (\<lambda>x s. Inr x),
      matmul_static_scaled_float8 = (\<lambda>x w s ws. Inr x),
      quantize_dynamic_scaled_float8 = (\<lambda>x dt. Inr (x, x)),
      dynamic_scaled_matmul = (\<lambda>x w xs ws dt. Inr x),
      swish_glu = (\<lambda>x g u. Inr x)\<rparr>"

text \<open>A library whose \<^verbatim>\<open>Weight\<close> constructor places every bias on \<^verbatim>\<open>GPU(1)\<close>.\<close>

definition example_mismatch_lib :: graph_lib where
  "example_mismatch_lib =
     \<lparr>new_Weight = (\<lambda>n dt sh dev qe.
        Weight_init n dt sh (if n = ''bias'' then Some (GPU 1) else dev) qe),
      partition_rule = partition_rule example_graph_lib\<rparr>"

definition example_float8 ::
  "Float8ScaleGranularity \<Rightarrow> Float8ScaleOrigin \<Rightarrow> Float8ScaleGranularity \<Rightarrow> Float8Config" where
  "example_float8 ig orig wg =
     \<lparr>cfg_input_scale = \<lparr>in_granularity = ig, in_origin = orig, in_dtype = float32,
                          activation_scale_ub = None\<rparr>,
      cfg_weight_scale = \<lparr>w_granularity = wg, w_dtype = float32\<rparr>,
      mlp_in_float8 = {}, attn_qkv_in_float8 = {}, embedding_output_dtype = None,
      quant_method = None\<rparr>"

text \<open>
  The layer and the store that
  \<^verbatim>\<open>Linear(in_dim=4, out_dim=8, dtype=float32, device=GPU(0), has_bias=True, float8_config=...)\<close>
  yields, for a static per-tensor input scale and the weight-scale granularity \<open>wg\<close>; and
  the store after a sharding strategy has been assigned to the layer.
\<close>

definition example_linear :: "Float8ScaleGranularity \<Rightarrow> Linear" where
  "example_linear wg =
     \<lparr>weight = 0, bias = Some 1, input_scale = Some 2, weight_scale = Some 3,
      device = Some (GPU 0), clip_weight = None,
      float8_config = Some (example_float8 TENSOR STATIC wg)\<rparr>"

definition example_heap :: "Float8ScaleGranularity \<Rightarrow> heap" where
  "example_heap wg =
     [Weight_init ''weight'' float32 [8, 4] (Some (GPU 0)) None,
      Weight_init ''bias'' float32 [8] (Some (GPU 0)) None,
      Weight_init ''input_scale'' float32 [] (Some (CPU 0)) None,
      Weight_init ''weight_scale'' float32 (if wg = ROWWISE then [8, 1] else [])
        (Some (CPU 0)) None]"

definition example_sharded_heap :: "Float8ScaleGranularity \<Rightarrow> ShardingStrategy \<Rightarrow> heap" where
  "example_sharded_heap wg s =
     (case Linear_set_sharding_strategy (example_heap wg) (example_linear wg) s of
        Inr h \<Rightarrow> h
      | Inl e \<Rightarrow> [])"

text \<open>
  \<^verbatim>\<open>Linear(in_dim=4, out_dim=10, dtype=float32, device=GPU(0))\<close> after a sharding
  strategy has been assigned to it.
\<close>

definition example_linear10 :: Linear where
  "example_linear10 =
     \<lparr>weight = 0, bias = None, input_scale = None, weight_scale = None,
      device = Some (GPU 0), clip_weight = None, float8_config = None\<rparr>"

definition example_heap10 :: "ShardingStrategy \<Rightarrow> heap" where
  "example_heap10 s =
     [(Weight_init ''weight'' float32 [10, 4] (Some (GPU 0)) None)
        \<lparr>sharding_strategy := Some s\<rparr>]"

text \<open>
  The layer, the store, weight values and an input for
  \<^verbatim>\<open>MLP(float32, None, hidden_dim=2, feed_forward_length=1, devices=[GPU(0)], has_bias=True, activation_function="relu", dist_gemm_config=dgc)\<close>.
\<close>

definition example_mlp :: "DistributedGemmConfig option \<Rightarrow> int MLP" where
  "example_mlp dgc =
     \<lparr>mlp_devices = [GPU 0], mlp_num_devices = 1, dist_gemm_config = dgc,
      hidden_dim = 2, feed_forward_length = 1,
      gate_proj = \<lparr>weight = 0, bias = Some 1, input_scale = None, weight_scale = None,
                   device = Some (GPU 0), clip_weight = None, float8_config = None\<rparr>,
      down_proj = \<lparr>weight = 2, bias = Some 3, input_scale = None, weight_scale = None,
                   device = Some (GPU 0), clip_weight = None, float8_config = None\<rparr>,
      up_proj = \<lparr>weight = 4, bias = Some 5, input_scale = None, weight_scale = None,
                 device = Some (GPU 0), clip_weight = None, float8_config = None\<rparr>,
      mlp_quantization_encoding = None, mlp_float8_config = None,
      activation_function_name = ''relu'', activation_function = krelu example_kernels,
      mlp_sharding_strategy = None\<rparr>"

definition example_mlp_heap :: heap where
  "example_mlp_heap =
     [Weight_init ''weight'' float32 [1, 2] (Some (GPU 0)) None,
      Weight_init ''bias'' float32 [1] (Some (GPU 0)) None,
      Weight_init ''weight'' float32 [2, 1] (Some (GPU 0)) None,
      Weight_init ''bias'' float32 [2] (Some (GPU 0)) None,
      Weight_init ''weight'' float32 [1, 2] (Some (GPU 0)) None,
      Weight_init ''bias'' float32 [1] (Some (GPU 0)) None]"

definition example_values :: "ref \<Rightarrow> int list list" where
  "example_values r =
     (if r = 0 then [[1, 2]] else if r = 1 then [[1]] else if r = 2 then [[1], [2]]
      else if r = 3 then [[0, 0]] else if r = 4 then [[3, 4]] else [[1]])"

definition example_input :: "int tensor" where
  "example_input = \<lparr>tdevice = Some (GPU 0), tshape = [1, 2], rows = [[1, 1]]\<rparr>"

section \<open>Properties\<close>

subsection \<open>Results and the store\<close>

lemma bind_e_Inr_iff: "bind_e m f = Inr y \<longleftrightarrow> (\<exists>a. m = Inr a \<and> f a = Inr y)"
  by (cases m) (simp_all add: bind_e_def)

lemma index_Inr_iff: "index xs i = Inr y \<longleftrightarrow> i < length xs \<and> y = xs ! i"
  by (auto simp: index_def)

text \<open>The two stages of \<^verbatim>\<open>Linear.__init__\<close>, when they return.\<close>

lemma Linear_init_weights_Inr:
  assumes "Linear_init_weights G h i out dt dev hb qe f8 nm clip = Inr (self, h1)"
  shows "weight self = length h \<and> bias self = (if hb then Some (Suc (length h)) else None) \<and>
         input_scale self = None \<and> weight_scale self = None \<and> float8_config self = f8 \<and>
         length h1 = (if hb then Suc (Suc (length h)) else Suc (length h)) \<and>
         (\<exists>ext. h1 = h @ ext) \<and>
         (hb \<longrightarrow> wdevice (new_Weight G (attr_name nm ''bias'') dt [out] dev qe) =
                 wdevice (new_Weight G (attr_name nm ''weight'') dt [out, i] dev qe))"
  using assms unfolding Linear_init_weights_def alloc_def
  by (auto simp: Let_def nth_append split: if_splits)

lemma Linear_init_float8_Inr:
  assumes "Linear_init_float8 G h self qe cfg nm = Inr (self', h')"
  shows "weight self' = weight self \<and> bias self' = bias self \<and>
         float8_config self' = float8_config self \<and>
         input_scale self' = (if is_static cfg then Some (length h) else input_scale self) \<and>
         weight_scale self' = Some (if is_static cfg then Suc (length h) else length h) \<and>
         length h' = (if is_static cfg then Suc (Suc (length h)) else Suc (length h)) \<and>
         (\<exists>ext. h' = h @ ext)"
  using assms unfolding Linear_init_float8_def alloc_def
  by (cases "is_static cfg")
     (auto simp: Let_def bind_e_Inr_iff split: if_splits)

lemma Linear_init_Inr:
  assumes "Linear_init G h i out dt dev hb qe f8 nm clip = Inr (self, h')"
  obtains self1 h1 where
    "Linear_init_weights G h i out dt dev hb qe f8 nm clip = Inr (self1, h1)"
    "case f8 of None \<Rightarrow> self = self1 \<and> h' = h1
     | Some cfg \<Rightarrow> Linear_init_float8 G h1 self1 qe cfg nm = Inr (self, h')"
  using assms unfolding Linear_init_def
  by (auto simp: bind_e_Inr_iff split: option.splits)

text \<open>Constructing a layer only adds objects to the store.\<close>

lemma Linear_init_ext:
  assumes "Linear_init G h i out dt dev hb qe f8 nm clip = Inr (self, h')"
  shows "\<exists>ext. h' = h @ ext"
proof -
  from assms obtain self1 h1 where
    w: "Linear_init_weights G h i out dt dev hb qe f8 nm clip = Inr (self1, h1)" and
    f: "case f8 of None \<Rightarrow> self = self1 \<and> h' = h1
        | Some cfg \<Rightarrow> Linear_init_float8 G h1 self1 qe cfg nm = Inr (self, h')"
    by (rule Linear_init_Inr)
  from Linear_init_weights_Inr[OF w] obtain e1 where e1: "h1 = h @ e1" by blast
  show ?thesis
  proof (cases f8)
    case None
    with f e1 show ?thesis by simp
  next
    case (Some cfg)
    with f have "Linear_init_float8 G h1 self1 qe cfg nm = Inr (self, h')" by simp
    from Linear_init_float8_Inr[OF this] obtain e2 where "h' = h1 @ e2" by blast
    with e1 show ?thesis by simp
  qed
qed

text \<open>A constructed layer is well formed in the store it is returned with.\<close>

lemma Linear_init_wf:
  assumes "Linear_init G h i out dt dev hb qe f8 nm clip = Inr (self, h')"
  shows "wf_Linear h' self"
proof -
  from assms obtain self1 h1 where
    w: "Linear_init_weights G h i out dt dev hb qe f8 nm clip = Inr (self1, h1)" and
    f: "case f8 of None \<Rightarrow> self = self1 \<and> h' = h1
        | Some cfg \<Rightarrow> Linear_init_float8 G h1 self1 qe cfg nm = Inr (self, h')"
    by (rule Linear_init_Inr)
  note W = Linear_init_weights_Inr[OF w]
  show ?thesis
  proof (cases f8)
    case None
    with f W show ?thesis by (simp add: wf_Linear_def)
  next
    case (Some cfg)
    with f have "Linear_init_float8 G h1 self1 qe cfg nm = Inr (self, h')" by simp
    note F = Linear_init_float8_Inr[OF this]
    from W F Some show ?thesis by (simp add: wf_Linear_def)
  qed
qed

text \<open>
  With the constructor of \<^verbatim>\<open>Weight\<close> that the spec describes, bias and weight are both
  placed on the \<^verbatim>\<open>device\<close> argument, and the device check of \<^verbatim>\<open>Linear.__init__\<close> passes.
\<close>

lemma Linear_init_Weight_init_no_mismatch:
  assumes "new_Weight G = Weight_init"
  shows "Linear_init G h i out dt dev hb qe f8 nm clip \<noteq> Inl (ValueError (BiasDeviceMismatch a b))"
proof (cases "Linear_init_weights G h i out dt dev hb qe f8 nm clip")
  case (Inl e)
  with assms show ?thesis
    unfolding Linear_init_weights_def alloc_def
    by (auto simp: Let_def nth_append Weight_init_def split: if_splits)
next
  case (Inr p)
  obtain self1 h1 where p: "p = (self1, h1)" by (cases p)
  show ?thesis
  proof (cases f8)
    case None
    with Inr p show ?thesis by (simp add: Linear_init_def bind_e_def)
  next
    case (Some cfg)
    with Inr p show ?thesis
      unfolding Linear_init_def Linear_init_float8_def alloc_def index_def
      by (cases "is_static cfg")
         (auto simp: bind_e_def Let_def split: if_splits)
  qed
qed

lemma Weight_shard_Inr:
  assumes "Weight_shard G h r devs = Inr (rs, h1)"
  obtains s where "sharding_strategy (h ! r) = Some s"
    "rs = [length h ..< length h + length devs]"
    "h1 = h @ map (\<lambda>(i, d). partition_rule G s (h ! r) i d) (enumerate 0 devs)"
  using assms unfolding Weight_shard_def by (auto split: option.splits)

lemma Weight_shard_heap:
  assumes "Weight_shard G h r devs = Inr (rs, h1)"
  shows "\<exists>ext. h1 = h @ ext"
  using assms by (auto elim: Weight_shard_Inr)

text \<open>The shards of a weight: where they are, and what they hold.\<close>

lemma Weight_shard_nth:
  assumes "Weight_shard G h r devs = Inr (rs, h1)" and "i < length devs"
    and "sharding_strategy (h ! r) = Some s"
  shows "rs ! i = length h + i" and "length rs = length devs"
    and "(h1 @ ext) ! (length h + i) = partition_rule G s (h ! r) i (devs ! i)"
  using assms
  by (auto elim!: Weight_shard_Inr simp: nth_append nth_enumerate_eq)

subsection \<open>The loop of Linear.shard\<close>

lemma shard_one_Inr:
  assumes "shard_one G self s od sbs swss idx d wsh h = Inr (sh, h1)"
  obtains in_dim sharded where
    "Linear_init G h in_dim od (dtype (h ! weight self)) (Some d) (bias self \<noteq> None) None
       (float8_config self) None (clip_weight self) = Inr (sharded, h1)"
    "shard_assign self s sbs swss idx wsh h1 sharded = Inr sh"
  using assms unfolding shard_one_def
  by (auto simp: bind_e_Inr_iff)

lemma shard_one_ext:
  assumes "shard_one G self s od sbs swss idx d wsh h = Inr (sh, h1)"
  shows "\<exists>ext. h1 = h @ ext"
  using assms by (auto elim!: shard_one_Inr dest: Linear_init_ext)

lemma shard_loop_Cons_Inr:
  assumes "shard_loop G self s od sbs swss idx ((d, wsh) # zs) h = Inr (shards, h')"
  obtains sh h1 rest where
    "shard_one G self s od sbs swss idx d wsh h = Inr (sh, h1)"
    "shard_loop G self s od sbs swss (Suc idx) zs h1 = Inr (rest, h')"
    "shards = sh # rest"
  using assms by (auto simp: bind_e_Inr_iff)

lemma shard_loop_ext:
  "shard_loop G self s od sbs swss idx zs h = Inr (shards, h') \<Longrightarrow> \<exists>ext. h' = h @ ext"
proof (induction zs arbitrary: idx h shards)
  case Nil
  then show ?case by simp
next
  case (Cons z zs)
  obtain d wsh where z: "z = (d, wsh)" by (cases z)
  from Cons.prems[unfolded z] obtain sh h1 rest where
    one: "shard_one G self s od sbs swss idx d wsh h = Inr (sh, h1)" and
    loop: "shard_loop G self s od sbs swss (Suc idx) zs h1 = Inr (rest, h')"
    by (rule shard_loop_Cons_Inr)
  from shard_one_ext[OF one] Cons.IH[OF loop] show ?case by auto
qed

lemma shard_loop_length:
  "shard_loop G self s od sbs swss idx zs h = Inr (shards, h') \<Longrightarrow> length shards = length zs"
proof (induction zs arbitrary: idx h shards)
  case Nil
  then show ?case by simp
next
  case (Cons z zs)
  obtain d wsh where z: "z = (d, wsh)" by (cases z)
  from Cons.prems[unfolded z] obtain sh h1 rest where
    loop: "shard_loop G self s od sbs swss (Suc idx) zs h1 = Inr (rest, h')" and
    sh: "shards = sh # rest"
    by (rule shard_loop_Cons_Inr)
  from Cons.IH[OF loop] sh show ?case by simp
qed

text \<open>
  Shard number \<open>i\<close> of the result comes from the assignments of pass \<open>i\<close>, made in a store
  that extends the one the loop started with.
\<close>

lemma shard_loop_nth:
  "shard_loop G self s od sbs swss idx zs h = Inr (shards, h') \<Longrightarrow> i < length zs \<Longrightarrow>
     \<exists>ext sharded. shard_assign self s sbs swss (idx + i) (snd (zs ! i)) (h @ ext) sharded
                     = Inr (shards ! i)"
proof (induction zs arbitrary: idx h shards i)
  case Nil
  then show ?case by simp
next
  case (Cons z zs)
  obtain d wsh where z: "z = (d, wsh)" by (cases z)
  from Cons.prems(1)[unfolded z] obtain sh h1 rest where
    one: "shard_one G self s od sbs swss idx d wsh h = Inr (sh, h1)" and
    loop: "shard_loop G self s od sbs swss (Suc idx) zs h1 = Inr (rest, h')" and
    sh: "shards = sh # rest"
    by (rule shard_loop_Cons_Inr)
  from shard_one_ext[OF one] obtain ext1 where h1: "h1 = h @ ext1" by blast
  show ?case
  proof (cases i)
    case 0
    from one obtain in_dim sharded where
      "shard_assign self s sbs swss idx wsh h1 sharded = Inr sh"
      by (rule shard_one_Inr)
    with 0 sh z h1 show ?thesis by auto
  next
    case (Suc j)
    with Cons.prems(2) have "j < length zs" by simp
    from Cons.IH[OF loop this] obtain ext sharded where
      "shard_assign self s sbs swss (Suc idx + j) (snd (zs ! j)) (h1 @ ext) sharded = Inr (rest ! j)"
      by blast
    with Suc sh h1 have
      "shard_assign self s sbs swss (idx + i) (snd ((z # zs) ! i)) (h @ (ext1 @ ext)) sharded
         = Inr (shards ! i)"
      by simp
    then show ?thesis by blast
  qed
qed

text \<open>What the assignments of one pass make of each attribute of the shard.\<close>

lemma shard_assign_bias:
  assumes "shard_assign self s sbs swss idx wsh h1 sharded = Inr sh"
  shows "bias sh =
           (if bias self = None then bias sharded
            else if (strategy_is_colwise s \<or> strategy_is_head_aware_colwise s) \<and> idx > 0 then None
            else Some (sbs ! idx))"
  using assms unfolding shard_assign_def
  by (auto simp: bind_e_Inr_iff index_Inr_iff Let_def split: if_splits option.splits)

lemma shard_assign_weight:
  assumes "shard_assign self s sbs swss idx wsh h1 sharded = Inr sh"
  shows "weight sh = wsh"
  using assms unfolding shard_assign_def
  by (auto simp: bind_e_Inr_iff index_Inr_iff Let_def split: if_splits option.splits)

lemma shard_assign_input_scale:
  assumes "shard_assign self s sbs swss idx wsh h1 sharded = Inr sh"
    and "float8_config self = Some cfg" and "input_scale self = Some r"
  shows "input_scale sh = Some r \<and> shape (h1 ! r) = []"
  using assms unfolding shard_assign_def
  by (auto simp: bind_e_Inr_iff index_Inr_iff Let_def split: if_splits option.splits)

lemma shard_assign_weight_scale:
  assumes "shard_assign self s sbs swss idx wsh h1 sharded = Inr sh"
    and "float8_config self = Some cfg" and "weight_scale self = Some r"
  shows "weight_scale sh = Some (if shape (h1 ! r) = [] then r else swss ! idx)"
proof -
  from assms obtain sh2 where
    last: "(if shape (h1 ! r) = [] then Inr (sh2\<lparr>weight_scale := Some r\<rparr>)
            else bind_e (index swss idx) (\<lambda>r. Inr (sh2\<lparr>weight_scale := Some r\<rparr>))) = Inr sh"
    unfolding shard_assign_def by (auto simp: bind_e_Inr_iff)
  show ?thesis
  proof (cases "shape (h1 ! r) = []")
    case True
    with last show ?thesis by auto
  next
    case False
    with last show ?thesis by (auto simp: bind_e_Inr_iff index_Inr_iff)
  qed
qed

subsection \<open>Construction\<close>

text \<open>
  Claim C8. Constructing a \<^verbatim>\<open>Linear\<close> with \<^verbatim>\<open>has_bias=True\<close> raises the device-mismatch
  \<^verbatim>\<open>ValueError\<close> whenever the allocated bias and the allocated weight end up on different
  devices: whatever the constructor of \<^verbatim>\<open>Weight\<close> does with its arguments, if the bias
  it returns reports another device than the weight it returns, \<^verbatim>\<open>Linear.__init__\<close>
  fails with that error, which names the two devices.
\<close>

theorem Linear_init_bias_device_mismatch:
  assumes "wdevice (new_Weight G (attr_name nm ''bias'') dt [out_dim] dev qe) \<noteq>
           wdevice (new_Weight G (attr_name nm ''weight'') dt [out_dim, in_dim] dev qe)"
  shows "Linear_init G h in_dim out_dim dt dev True qe f8 nm clip =
           Inl (ValueError (BiasDeviceMismatch
                  (wdevice (new_Weight G (attr_name nm ''bias'') dt [out_dim] dev qe))
                  (wdevice (new_Weight G (attr_name nm ''weight'') dt [out_dim, in_dim] dev qe))))"
  using assms
  by (simp add: Linear_init_def Linear_init_weights_def alloc_def bind_e_def nth_append)

text \<open>
  \<^verbatim>\<open>Linear(in_dim=256, out_dim=128, dtype=float32, device=GPU(0), has_bias=True)\<close> with a
  \<^verbatim>\<open>Weight\<close> constructor that places the bias on \<^verbatim>\<open>GPU(1)\<close>.
\<close>

theorem Linear_init_bias_device_mismatch_witness:
  "wdevice (new_Weight example_mismatch_lib (attr_name None ''bias'') float32 [128]
              (Some (GPU 0)) None) \<noteq>
   wdevice (new_Weight example_mismatch_lib (attr_name None ''weight'') float32 [128, 256]
              (Some (GPU 0)) None) \<and>
   Linear_init example_mismatch_lib [] 256 128 float32 (Some (GPU 0)) True None None None None =
     Inl (ValueError (BiasDeviceMismatch (Some (GPU 1)) (Some (GPU 0))))"
proof -
  have differ:
    "wdevice (new_Weight example_mismatch_lib (attr_name None ''bias'') float32 [128]
                (Some (GPU 0)) None) \<noteq>
     wdevice (new_Weight example_mismatch_lib (attr_name None ''weight'') float32 [128, 256]
                (Some (GPU 0)) None)"
    by (simp add: example_mismatch_lib_def attr_name_def Weight_init_def)
  from Linear_init_bias_device_mismatch[OF differ, where h = "[]" and ?f8.0 = None and clip = None] differ
  show ?thesis
    by (simp add: example_mismatch_lib_def attr_name_def Weight_init_def)
qed

subsection \<open>The default distributed-GEMM configuration\<close>

text \<open>
  Claim C10. \<^verbatim>\<open>DistributedGemmConfig.generate()\<close> returns a configuration with
  \<^verbatim>\<open>enable_matmul_allreduce=True\<close> when \<^verbatim>\<open>LLAMA_ENABLE_DIST_GEMM_KERNELS\<close> is unset and
  for every non-empty value of it, \<^verbatim>\<open>"0"\<close> and \<^verbatim>\<open>"false"\<close> included; the empty string
  alone yields \<^verbatim>\<open>False\<close>.
\<close>

theorem DistributedGemmConfig_generate_enable:
  "DistributedGemmConfig_generate environ =
     Some \<lparr>enable_matmul_allreduce = (environ ''LLAMA_ENABLE_DIST_GEMM_KERNELS'' \<noteq> Some [])\<rparr>"
  by (simp add: DistributedGemmConfig_generate_def split: option.splits)

subsection \<open>Running the instances\<close>

lemmas run_defs = Linear_init_def Linear_init_weights_def Linear_init_float8_def alloc_def
  bind_e_def index_def attr_name_def Weight_init_def is_static_def is_rowwise_def is_tensor_def
  Linear_set_sharding_strategy_def set_strategy_def Linear_sharding_strategy_def
  ShardingStrategy_replicate_def ShardingStrategy_rowwise_def ShardingStrategy_columnwise_def
  strategy_is_rowwise_def strategy_is_colwise_def strategy_is_head_aware_colwise_def
  Linear_shard_def shard_out_dim_def Weight_shard_def shard_one_def shard_assign_def
  wf_Linear_def

lemmas example_defs = example_linear_def example_heap_def example_float8_def
  example_graph_lib_def example_sharded_heap_def example_linear10_def example_heap10_def

text \<open>The instances are what the constructors and the setter of the model produce.\<close>

lemma example_linear_init:
  "wg \<in> {ROWWISE, TENSOR} \<Longrightarrow>
   Linear_init example_graph_lib [] 4 8 float32 (Some (GPU 0)) True None
     (Some (example_float8 TENSOR STATIC wg)) None None = Inr (example_linear wg, example_heap wg)"
  by (auto simp add: example_defs run_defs)

lemma example_sharded_heap_set:
  "wg \<in> {ROWWISE, TENSOR} \<Longrightarrow>
   Linear_set_sharding_strategy (example_heap wg) (example_linear wg) s
     = Inr (example_sharded_heap wg s)"
  by (auto simp add: example_defs run_defs Let_def)

lemma example_linear10_init:
  "Linear_init example_graph_lib [] 4 10 float32 (Some (GPU 0)) False None None None None
     = Inr (example_linear10, [Weight_init ''weight'' float32 [10, 4] (Some (GPU 0)) None])"
  by (simp add: example_defs run_defs)

lemma example_heap10_set:
  "Linear_set_sharding_strategy [Weight_init ''weight'' float32 [10, 4] (Some (GPU 0)) None]
     example_linear10 s = Inr (example_heap10 s)"
  by (simp add: example_defs run_defs)

lemma example_wf: "wf_Linear (example_sharded_heap wg s) (example_linear wg)"
  by (simp add: example_defs run_defs Let_def)

lemma example_shard_colwise:
  "\<exists>shards h'. Linear_shard example_graph_lib
      (example_sharded_heap ROWWISE (ShardingStrategy_columnwise 2)) (example_linear ROWWISE)
      [GPU 0, GPU 1] = Inr (shards, h')"
  by (simp add: example_defs run_defs enumerate_eq_zip upt_rec nth_append)

lemma example_shard_rowwise:
  "\<exists>shards h'. Linear_shard example_graph_lib
      (example_sharded_heap ROWWISE (ShardingStrategy_rowwise 2)) (example_linear ROWWISE)
      [GPU 0, GPU 1] = Inr (shards, h')"
  by (simp add: example_defs run_defs enumerate_eq_zip upt_rec nth_append)

lemma example_shard_tensor:
  "\<exists>shards h'. Linear_shard example_graph_lib
      (example_sharded_heap TENSOR (ShardingStrategy_rowwise 2)) (example_linear TENSOR)
      [GPU 0, GPU 1] = Inr (shards, h')"
  by (simp add: example_defs run_defs enumerate_eq_zip upt_rec nth_append)


lemma example_shard10_rowwise3:
  "\<exists>shards h'. Linear_shard example_graph_lib (example_heap10 (ShardingStrategy_rowwise 3))
      example_linear10 [GPU 0, GPU 1, GPU 2] = Inr (shards, h')"
  by (simp add: example_defs run_defs enumerate_eq_zip upt_rec nth_append)

subsection \<open>Sharding a Linear\<close>

lemma Linear_shard_Inr:
  assumes "Linear_shard G h self devs = Inr (shards, h')"
  obtains s od sws h1 sbs h2 swss h3 where
    "sharding_strategy (h ! weight self) = Some s"
    "shard_out_dim h self s = Inr od"
    "Weight_shard G h (weight self) devs = Inr (sws, h1)"
    "(case bias self of None \<Rightarrow> Inr ([], h1) | Some b \<Rightarrow> Weight_shard G h1 b devs) = Inr (sbs, h2)"
    "(case (float8_config self, weight_scale self) of
        (Some cfg, Some wsc) \<Rightarrow>
          if length (shape (h2 ! wsc)) > 0 then Weight_shard G h2 wsc devs else Inr ([], h2)
      | _ \<Rightarrow> Inr ([], h2)) = Inr (swss, h3)"
    "shard_loop G self s od sbs swss 0 (zip devs sws) h3 = Inr (shards, h')"
proof -
  from assms obtain s where s: "sharding_strategy (h ! weight self) = Some s"
    unfolding Linear_shard_def by (auto split: option.splits)
  with assms that show thesis
    unfolding Linear_shard_def by (simp add: bind_e_Inr_iff) blast
qed

text \<open>\<^verbatim>\<open>shard\<close> returns one layer per device.\<close>

lemma Linear_shard_length:
  assumes "Linear_shard G h self devs = Inr (shards, h')"
  shows "length shards = length devs"
proof -
  from assms obtain s od sws h1 sbs h2 swss h3 where
    w: "Weight_shard G h (weight self) devs = Inr (sws, h1)" and
    loop: "shard_loop G self s od sbs swss 0 (zip devs sws) h3 = Inr (shards, h')"
    by (rule Linear_shard_Inr)
  from w have "length sws = length devs" by (auto elim: Weight_shard_Inr)
  with shard_loop_length[OF loop] show ?thesis by simp
qed

text \<open>
  Claim C2. For a \<^verbatim>\<open>Linear\<close> with a weight scale (and hence a float8 configuration),
  assigning a sharding strategy gives the weight scale the strategy
  \<^verbatim>\<open>replicate(num_devices)\<close> when the weight-scale granularity is tensor, or when the
  assigned strategy is colwise or head-aware colwise and the granularity is rowwise; in
  every other case the weight scale receives the assigned strategy, which is also the
  one the weight receives.
\<close>

theorem Linear_set_sharding_strategy_weight_scale:
  assumes "wf_Linear h self" and "weight_scale self = Some ws"
    and "float8_config self = Some cfg"
  shows "\<exists>h'. Linear_set_sharding_strategy h self strategy = Inr h' \<and>
           Linear_sharding_strategy h' self = Some strategy \<and>
           sharding_strategy (h' ! ws) =
             Some (if is_tensor (cfg_weight_scale cfg) \<or>
                      (strategy_is_colwise strategy \<or> strategy_is_head_aware_colwise strategy) \<and>
                      is_rowwise (cfg_weight_scale cfg)
                   then ShardingStrategy_replicate (num_devices strategy)
                   else strategy)"
  using assms
  unfolding wf_Linear_def Linear_set_sharding_strategy_def Linear_sharding_strategy_def
    set_strategy_def bind_e_def
  by (auto simp: Let_def split: option.splits)

text \<open>
  The layer of the instance, with a rowwise weight scale: a colwise strategy leaves the
  weight scale replicated, a rowwise one is passed on to it.
\<close>

theorem Linear_set_sharding_strategy_weight_scale_witness:
  "wf_Linear (example_heap ROWWISE) (example_linear ROWWISE) \<and>
   weight_scale (example_linear ROWWISE) = Some 3 \<and>
   (case Linear_set_sharding_strategy (example_heap ROWWISE) (example_linear ROWWISE)
           (ShardingStrategy_columnwise 2) of
      Inl e \<Rightarrow> False
    | Inr h' \<Rightarrow> sharding_strategy (h' ! 3) = Some (ShardingStrategy_replicate 2) \<and>
                sharding_strategy (h' ! 0) = Some (ShardingStrategy_columnwise 2)) \<and>
   (case Linear_set_sharding_strategy (example_heap ROWWISE) (example_linear ROWWISE)
           (ShardingStrategy_rowwise 2) of
      Inl e \<Rightarrow> False
    | Inr h' \<Rightarrow> sharding_strategy (h' ! 3) = Some (ShardingStrategy_rowwise 2) \<and>
                sharding_strategy (h' ! 0) = Some (ShardingStrategy_rowwise 2))"
proof -
  have wf: "wf_Linear (example_heap ROWWISE) (example_linear ROWWISE)"
    by (simp add: example_defs run_defs)
  have ws: "weight_scale (example_linear ROWWISE) = Some 3"
    by (simp add: example_defs)
  have f8: "float8_config (example_linear ROWWISE) = Some (example_float8 TENSOR STATIC ROWWISE)"
    by (simp add: example_defs)
  note inst = Linear_set_sharding_strategy_weight_scale[OF wf ws f8]
  from inst[of "ShardingStrategy_columnwise 2"] obtain h1 where
    h1: "Linear_set_sharding_strategy (example_heap ROWWISE) (example_linear ROWWISE)
           (ShardingStrategy_columnwise 2) = Inr h1"
        "sharding_strategy (h1 ! 3) = Some (ShardingStrategy_replicate 2)"
        "sharding_strategy (h1 ! 0) = Some (ShardingStrategy_columnwise 2)"
    by (auto simp: example_defs is_tensor_def is_rowwise_def strategy_is_colwise_def
        ShardingStrategy_columnwise_def Linear_sharding_strategy_def)
  from inst[of "ShardingStrategy_rowwise 2"] obtain h2 where
    h2: "Linear_set_sharding_strategy (example_heap ROWWISE) (example_linear ROWWISE)
           (ShardingStrategy_rowwise 2) = Inr h2"
        "sharding_strategy (h2 ! 3) = Some (ShardingStrategy_rowwise 2)"
        "sharding_strategy (h2 ! 0) = Some (ShardingStrategy_rowwise 2)"
    by (auto simp: example_defs is_tensor_def is_rowwise_def strategy_is_colwise_def
        strategy_is_head_aware_colwise_def ShardingStrategy_rowwise_def
        Linear_sharding_strategy_def)
  from wf ws h1 h2 show ?thesis by simp
qed

text \<open>
  Claim C3. For a \<^verbatim>\<open>Linear\<close> with a bias whose sharding strategy is colwise or head-aware
  colwise, the list that \<^verbatim>\<open>shard(devices)\<close> returns has a bias on the shard at index 0
  and none on every shard at a higher index.
\<close>

theorem Linear_shard_colwise_bias:
  assumes "Linear_shard G h self devs = Inr (shards, h')"
    and "bias self \<noteq> None"
    and "Linear_sharding_strategy h self = Some s"
    and "strategy_is_colwise s \<or> strategy_is_head_aware_colwise s"
    and "i < length shards"
  shows "(i = 0 \<longrightarrow> bias (shards ! i) \<noteq> None) \<and> (0 < i \<longrightarrow> bias (shards ! i) = None)"
proof -
  from assms(1) obtain s' od sws h1 sbs h2 swss h3 where
    s': "sharding_strategy (h ! weight self) = Some s'" and
    loop: "shard_loop G self s' od sbs swss 0 (zip devs sws) h3 = Inr (shards, h')"
    by (rule Linear_shard_Inr)
  from s' assms(3) have [simp]: "s' = s" by (simp add: Linear_sharding_strategy_def)
  from shard_loop_length[OF loop] assms(5) have "i < length (zip devs sws)" by simp
  from shard_loop_nth[OF loop this] obtain ext sharded where
    "shard_assign self s sbs swss i (snd (zip devs sws ! i)) (h3 @ ext) sharded = Inr (shards ! i)"
    by auto
  from shard_assign_bias[OF this] assms(2,4) show ?thesis by auto
qed

text \<open>The layer of the instance under \<^verbatim>\<open>columnwise(2)\<close>, sharded over two devices.\<close>

theorem Linear_shard_colwise_bias_witness:
  "bias (example_linear ROWWISE) \<noteq> None \<and>
   Linear_sharding_strategy (example_sharded_heap ROWWISE (ShardingStrategy_columnwise 2))
     (example_linear ROWWISE) = Some (ShardingStrategy_columnwise 2) \<and>
   (case Linear_shard example_graph_lib
           (example_sharded_heap ROWWISE (ShardingStrategy_columnwise 2))
           (example_linear ROWWISE) [GPU 0, GPU 1] of
      Inl e \<Rightarrow> False
    | Inr (shards, h') \<Rightarrow>
        length shards = 2 \<and> bias (shards ! 0) \<noteq> None \<and> bias (shards ! 1) = None)"
proof -
  from example_shard_colwise obtain shards h' where
    run: "Linear_shard example_graph_lib
            (example_sharded_heap ROWWISE (ShardingStrategy_columnwise 2))
            (example_linear ROWWISE) [GPU 0, GPU 1] = Inr (shards, h')"
    by blast
  have b: "bias (example_linear ROWWISE) \<noteq> None"
    by (simp add: example_defs)
  have s: "Linear_sharding_strategy (example_sharded_heap ROWWISE (ShardingStrategy_columnwise 2))
             (example_linear ROWWISE) = Some (ShardingStrategy_columnwise 2)"
    by (simp add: example_defs run_defs Let_def)
  have c: "strategy_is_colwise (ShardingStrategy_columnwise 2) \<or>
           strategy_is_head_aware_colwise (ShardingStrategy_columnwise 2)"
    by (simp add: strategy_is_colwise_def ShardingStrategy_columnwise_def)
  from Linear_shard_length[OF run] have len: "length shards = 2" by simp
  from Linear_shard_colwise_bias[OF run b s c, of 0] Linear_shard_colwise_bias[OF run b s c, of 1]
    len b s run
  show ?thesis by simp
qed




text \<open>The scales of the shards, and their weights.\<close>

lemma Linear_shard_scalar_scales:
  assumes "Linear_shard G h self devs = Inr (shards, h')"
    and "float8_config self = Some cfg"
    and "i < length shards"
  shows "input_scale self = Some r \<Longrightarrow> input_scale (shards ! i) = Some r"
    and "weight_scale self = Some r \<Longrightarrow> r < length h \<Longrightarrow> shape (h ! r) = [] \<Longrightarrow>
         weight_scale (shards ! i) = Some r"
proof -
  from assms(1) obtain s od sws h1 sbs h2 swss h3 where
    w: "Weight_shard G h (weight self) devs = Inr (sws, h1)" and
    b: "(case bias self of None \<Rightarrow> Inr ([], h1) | Some b \<Rightarrow> Weight_shard G h1 b devs)
          = Inr (sbs, h2)" and
    ws: "(case (float8_config self, weight_scale self) of
            (Some cfg, Some wsc) \<Rightarrow>
              if length (shape (h2 ! wsc)) > 0 then Weight_shard G h2 wsc devs else Inr ([], h2)
          | _ \<Rightarrow> Inr ([], h2)) = Inr (swss, h3)" and
    loop: "shard_loop G self s od sbs swss 0 (zip devs sws) h3 = Inr (shards, h')"
    by (rule Linear_shard_Inr)
  from shard_loop_length[OF loop] assms(3) have "i < length (zip devs sws)" by simp
  from shard_loop_nth[OF loop this] obtain ext sharded where
    asg: "shard_assign self s sbs swss i (snd (zip devs sws ! i)) (h3 @ ext) sharded
            = Inr (shards ! i)"
    by auto
  show "input_scale self = Some r \<Longrightarrow> input_scale (shards ! i) = Some r"
    using shard_assign_input_scale[OF asg assms(2)] by simp
  from w obtain e1 where h1: "h1 = h @ e1" by (auto dest: Weight_shard_heap)
  from b obtain e2 where h2: "h2 = h1 @ e2"
    by (cases "bias self") (auto dest: Weight_shard_heap)
  assume r: "weight_scale self = Some r" "r < length h" "shape (h ! r) = []"
  with ws assms(2) h1 h2 have "h3 = h2" by (simp add: nth_append)
  with h1 h2 r have "shape ((h3 @ ext) ! r) = []" by (simp add: nth_append)
  with shard_assign_weight_scale(1)[OF asg assms(2) r(1)]
  show "weight_scale (shards ! i) = Some r" by simp
qed

lemma Linear_shard_weights:
  assumes "Linear_shard G h self devs = Inr (shards, h')"
    and "sharding_strategy (h ! weight self) = Some s"
    and "i < length shards"
  shows "weight (shards ! i) = length h + i"
    and "h' ! (length h + i) = partition_rule G s (h ! weight self) i (devs ! i)"
proof -
  from assms(1) obtain s' od sws h1 sbs h2 swss h3 where
    w: "Weight_shard G h (weight self) devs = Inr (sws, h1)" and
    b: "(case bias self of None \<Rightarrow> Inr ([], h1) | Some b \<Rightarrow> Weight_shard G h1 b devs)
          = Inr (sbs, h2)" and
    ws: "(case (float8_config self, weight_scale self) of
            (Some cfg, Some wsc) \<Rightarrow>
              if length (shape (h2 ! wsc)) > 0 then Weight_shard G h2 wsc devs else Inr ([], h2)
          | _ \<Rightarrow> Inr ([], h2)) = Inr (swss, h3)" and
    loop: "shard_loop G self s' od sbs swss 0 (zip devs sws) h3 = Inr (shards, h')"
    by (rule Linear_shard_Inr)
  from Linear_shard_length[OF assms(1)] assms(3) have i: "i < length devs" by simp
  note ws_nth = Weight_shard_nth[OF w i assms(2)]
  from shard_loop_length[OF loop] assms(3) have iz: "i < length (zip devs sws)" by simp
  from shard_loop_nth[OF loop iz] obtain ext sharded where
    asg: "shard_assign self s' sbs swss i (snd (zip devs sws ! i)) (h3 @ ext) sharded
            = Inr (shards ! i)"
    by auto
  from shard_assign_weight[OF asg] iz ws_nth(1) show "weight (shards ! i) = length h + i"
    by simp
  from b obtain e2 where h2: "h2 = h1 @ e2"
    by (cases "bias self") (auto dest: Weight_shard_heap)
  from ws obtain e3 where h3: "h3 = h2 @ e3"
    by (auto dest: Weight_shard_heap split: option.splits if_splits)
  from shard_loop_ext[OF loop] obtain e4 where "h' = h3 @ e4" by blast
  with h2 h3 have "h' = h1 @ (e2 @ e3 @ e4)" by simp
  with ws_nth(3) show "h' ! (length h + i) = partition_rule G s (h ! weight self) i (devs ! i)"
    by simp
qed

lemma Linear_shard_weight_scales:
  assumes "Linear_shard G h self devs = Inr (shards, h')"
    and "float8_config self = Some cfg"
    and "weight_scale self = Some r" and "r < length h" and "shape (h ! r) \<noteq> []"
  shows "\<exists>sws base. sharding_strategy (h ! r) = Some sws \<and> length h \<le> base \<and>
           (\<forall>i<length shards.
              weight_scale (shards ! i) = Some (base + i) \<and>
              h' ! (base + i) = partition_rule G sws (h ! r) i (devs ! i))"
proof -
  from assms(1) obtain s od sws h1 sbs h2 swss h3 where
    w: "Weight_shard G h (weight self) devs = Inr (sws, h1)" and
    b: "(case bias self of None \<Rightarrow> Inr ([], h1) | Some b \<Rightarrow> Weight_shard G h1 b devs)
          = Inr (sbs, h2)" and
    ws: "(case (float8_config self, weight_scale self) of
            (Some cfg, Some wsc) \<Rightarrow>
              if length (shape (h2 ! wsc)) > 0 then Weight_shard G h2 wsc devs else Inr ([], h2)
          | _ \<Rightarrow> Inr ([], h2)) = Inr (swss, h3)" and
    loop: "shard_loop G self s od sbs swss 0 (zip devs sws) h3 = Inr (shards, h')"
    by (rule Linear_shard_Inr)
  from w obtain e1 where h1: "h1 = h @ e1" by (auto dest: Weight_shard_heap)
  from b obtain e2 where h2: "h2 = h1 @ e2"
    by (cases "bias self") (auto dest: Weight_shard_heap)
  from h1 h2 assms(4) have same: "h2 ! r = h ! r" by (simp add: nth_append)
  with ws assms(2,3,5) have wss: "Weight_shard G h2 r devs = Inr (swss, h3)" by simp
  then obtain st where st: "sharding_strategy (h2 ! r) = Some st"
    by (auto elim: Weight_shard_Inr)
  from shard_loop_ext[OF loop] obtain e4 where h': "h' = h3 @ e4" by blast
  have "\<forall>i<length shards.
          weight_scale (shards ! i) = Some (length h2 + i) \<and>
          h' ! (length h2 + i) = partition_rule G st (h ! r) i (devs ! i)"
  proof (intro allI impI)
    fix i assume il: "i < length shards"
    with Linear_shard_length[OF assms(1)] have i: "i < length devs" by simp
    note n = Weight_shard_nth[OF wss i st]
    from shard_loop_length[OF loop] il have iz: "i < length (zip devs sws)" by simp
    from shard_loop_nth[OF loop iz] obtain ext sharded where
      asg: "shard_assign self s sbs swss i (snd (zip devs sws ! i)) (h3 @ ext) sharded
              = Inr (shards ! i)"
      by auto
    from wss obtain e3 where h3: "h3 = h2 @ e3" by (auto dest: Weight_shard_heap)
    with h1 h2 assms(4,5) have "shape ((h3 @ ext) ! r) \<noteq> []" by (simp add: nth_append)
    with shard_assign_weight_scale(1)[OF asg assms(2,3)] n(1)
    have "weight_scale (shards ! i) = Some (length h2 + i)" by simp
    moreover from n(3)[of e4] h' same
    have "h' ! (length h2 + i) = partition_rule G st (h ! r) i (devs ! i)" by simp
    ultimately show "weight_scale (shards ! i) = Some (length h2 + i) \<and>
          h' ! (length h2 + i) = partition_rule G st (h ! r) i (devs ! i)" by simp
  qed
  moreover from h1 h2 have "length h \<le> length h2" by simp
  moreover from st same have "sharding_strategy (h ! r) = Some st" by simp
  ultimately show ?thesis by blast
qed

text \<open>
  Claim C5. When a \<^verbatim>\<open>Linear\<close> with a float8 configuration is sharded, every shard holds
  the very \<^verbatim>\<open>input_scale\<close> object of the original (which is a scalar, or \<^verbatim>\<open>shard\<close> fails
  its assertion), and the very \<^verbatim>\<open>weight_scale\<close> object of the original when that is a
  scalar (shape \<^verbatim>\<open>()\<close>): the same reference, not a copy. A weight scale that is not a
  scalar is partitioned as the weight is: shard \<open>i\<close> holds a new object, no object of
  the store before the call and another one for every shard, which is partition \<open>i\<close>
  of the original under the strategy of the weight scale, on device \<open>i\<close>; and the weight
  of shard \<open>i\<close> is the new object that is partition \<open>i\<close> of the weight.
\<close>

theorem Linear_shard_scales:
  assumes "Linear_shard G h self devs = Inr (shards, h')"
    and "float8_config self = Some cfg"
    and "wf_Linear h self"
  shows "(\<forall>r. input_scale self = Some r \<longrightarrow> (\<forall>sh \<in> set shards. input_scale sh = Some r)) \<and>
         (\<forall>r. weight_scale self = Some r \<and> shape (h ! r) = [] \<longrightarrow>
              (\<forall>sh \<in> set shards. weight_scale sh = Some r)) \<and>
         (\<forall>r. weight_scale self = Some r \<and> shape (h ! r) \<noteq> [] \<longrightarrow>
              (\<exists>sws base. sharding_strategy (h ! r) = Some sws \<and> length h \<le> base \<and>
                 (\<forall>i<length shards.
                    weight_scale (shards ! i) = Some (base + i) \<and>
                    h' ! (base + i) = partition_rule G sws (h ! r) i (devs ! i)))) \<and>
         (\<exists>s. sharding_strategy (h ! weight self) = Some s \<and>
              (\<forall>i<length shards.
                 weight (shards ! i) = length h + i \<and>
                 h' ! (length h + i) = partition_rule G s (h ! weight self) i (devs ! i)))"
proof (intro conjI allI impI ballI)
  fix r sh
  assume "input_scale self = Some r" and "sh \<in> set shards"
  then show "input_scale sh = Some r"
    using Linear_shard_scalar_scales(1)[OF assms(1,2)] by (auto simp: in_set_conv_nth)
next
  fix r sh
  assume r: "weight_scale self = Some r \<and> shape (h ! r) = []" and "sh \<in> set shards"
  moreover from r assms(3) have "r < length h" by (simp add: wf_Linear_def)
  ultimately show "weight_scale sh = Some r"
    using Linear_shard_scalar_scales(2)[OF assms(1,2)] by (auto simp: in_set_conv_nth)
next
  fix r
  assume r: "weight_scale self = Some r \<and> shape (h ! r) \<noteq> []"
  with assms(3) have "r < length h" by (simp add: wf_Linear_def)
  with r Linear_shard_weight_scales[OF assms(1,2)]
  show "\<exists>sws base. sharding_strategy (h ! r) = Some sws \<and> length h \<le> base \<and>
          (\<forall>i<length shards.
             weight_scale (shards ! i) = Some (base + i) \<and>
             h' ! (base + i) = partition_rule G sws (h ! r) i (devs ! i))"
    by blast
next
  from assms(1) obtain s where s: "sharding_strategy (h ! weight self) = Some s"
    by (auto elim: Linear_shard_Inr)
  with Linear_shard_weights[OF assms(1)]
  show "\<exists>s. sharding_strategy (h ! weight self) = Some s \<and>
          (\<forall>i<length shards.
             weight (shards ! i) = length h + i \<and>
             h' ! (length h + i) = partition_rule G s (h ! weight self) i (devs ! i))"
    by blast
qed

text \<open>
  The layer of the instance under \<^verbatim>\<open>rowwise(2)\<close> on two devices. With per-tensor weight
  scaling both scales are scalars, the objects 2 and 3 of the store, and both shards
  hold these. With rowwise weight scaling the weight scale has shape \<open>[8, 1]\<close>, and the
  shards hold two new objects of shape \<open>[4, 1]\<close>.
\<close>

theorem Linear_shard_scales_witness:
  "(case Linear_shard example_graph_lib
           (example_sharded_heap TENSOR (ShardingStrategy_rowwise 2))
           (example_linear TENSOR) [GPU 0, GPU 1] of
      Inl e \<Rightarrow> False
    | Inr (shards, h') \<Rightarrow>
        length shards = 2 \<and>
        list_all (\<lambda>sh. input_scale sh = Some 2 \<and> weight_scale sh = Some 3) shards) \<and>
   (case Linear_shard example_graph_lib
           (example_sharded_heap ROWWISE (ShardingStrategy_rowwise 2))
           (example_linear ROWWISE) [GPU 0, GPU 1] of
      Inl e \<Rightarrow> False
    | Inr (shards, h') \<Rightarrow>
        length shards = 2 \<and>
        list_all (\<lambda>sh. input_scale sh = Some 2) shards \<and>
        (\<exists>base. 4 \<le> base \<and> map weight_scale shards = [Some base, Some (Suc base)] \<and>
           map shape [h' ! base, h' ! Suc base] = [[4, 1], [4, 1]] \<and>
           map wdevice [h' ! base, h' ! Suc base] = [Some (GPU 0), Some (GPU 1)]))"
proof -
  from example_shard_tensor obtain shardsT hT where
    runT: "Linear_shard example_graph_lib
             (example_sharded_heap TENSOR (ShardingStrategy_rowwise 2))
             (example_linear TENSOR) [GPU 0, GPU 1] = Inr (shardsT, hT)"
    by blast
  from Linear_shard_length[OF runT] have lenT: "length shardsT = 2" by simp
  have f8T: "float8_config (example_linear TENSOR) = Some (example_float8 TENSOR STATIC TENSOR)"
    by (simp add: example_defs)
  have factsT: "input_scale (example_linear TENSOR) = Some 2"
    "weight_scale (example_linear TENSOR) = Some 3"
    "shape (example_sharded_heap TENSOR (ShardingStrategy_rowwise 2) ! 3) = []"
    by (simp_all add: example_defs run_defs Let_def)
  from Linear_shard_scales[OF runT f8T example_wf] factsT
  have T: "list_all (\<lambda>sh. input_scale sh = Some 2 \<and> weight_scale sh = Some 3) shardsT"
    by (simp add: list_all_iff)
  from example_shard_rowwise obtain shardsR hR where
    runR: "Linear_shard example_graph_lib
             (example_sharded_heap ROWWISE (ShardingStrategy_rowwise 2))
             (example_linear ROWWISE) [GPU 0, GPU 1] = Inr (shardsR, hR)"
    by blast
  from Linear_shard_length[OF runR] have lenR: "length shardsR = 2" by simp
  have f8R: "float8_config (example_linear ROWWISE) = Some (example_float8 TENSOR STATIC ROWWISE)"
    by (simp add: example_defs)
  have content: "example_sharded_heap ROWWISE (ShardingStrategy_rowwise 2) ! 3 =
       (Weight_init ''weight_scale'' float32 [8, 1] (Some (CPU 0)) None)
         \<lparr>sharding_strategy := Some (ShardingStrategy_rowwise 2)\<rparr>"
    "length (example_sharded_heap ROWWISE (ShardingStrategy_rowwise 2)) = 4"
    by (simp_all add: example_defs run_defs Let_def)
  have factsR: "input_scale (example_linear ROWWISE) = Some 2"
    "weight_scale (example_linear ROWWISE) = Some 3"
    "shape (example_sharded_heap ROWWISE (ShardingStrategy_rowwise 2) ! 3) \<noteq> []"
    "sharding_strategy (example_sharded_heap ROWWISE (ShardingStrategy_rowwise 2) ! 3)
       = Some (ShardingStrategy_rowwise 2)"
    "length (example_sharded_heap ROWWISE (ShardingStrategy_rowwise 2)) = 4"
    by (simp_all add: content Weight_init_def example_linear_def)
  note R = Linear_shard_scales[OF runR f8R example_wf]
  from R factsR have R1: "list_all (\<lambda>sh. input_scale sh = Some 2) shardsR"
    by (simp add: list_all_iff)
  from R[THEN conjunct2, THEN conjunct2, THEN conjunct1, rule_format,
      OF conjI[OF factsR(2) factsR(3)]]
  obtain sws base where
    sws: "sharding_strategy (example_sharded_heap ROWWISE (ShardingStrategy_rowwise 2) ! 3)
            = Some sws" and
    base': "length (example_sharded_heap ROWWISE (ShardingStrategy_rowwise 2)) \<le> base" and
    nth': "\<forall>i<length shardsR.
                 weight_scale (shardsR ! i) = Some (base + i) \<and>
                 hR ! (base + i) =
                   partition_rule example_graph_lib sws
                     (example_sharded_heap ROWWISE (ShardingStrategy_rowwise 2) ! 3)
                     i ([GPU 0, GPU 1] ! i)"
    by (elim exE conjE)
  from sws factsR(4) have "sws = ShardingStrategy_rowwise 2" by simp
  with nth' have nth: "\<forall>i<length shardsR.
                 weight_scale (shardsR ! i) = Some (base + i) \<and>
                 hR ! (base + i) =
                   partition_rule example_graph_lib (ShardingStrategy_rowwise 2)
                     (example_sharded_heap ROWWISE (ShardingStrategy_rowwise 2) ! 3)
                     i ([GPU 0, GPU 1] ! i)"
    by simp
  from base' factsR(5) have base: "4 \<le> base" by simp
  from nth[rule_format, of 0] nth[rule_format, of 1] lenR
  have n0: "weight_scale (shardsR ! 0) = Some base"
      "hR ! base = partition_rule example_graph_lib (ShardingStrategy_rowwise 2)
                     (example_sharded_heap ROWWISE (ShardingStrategy_rowwise 2) ! 3) 0 (GPU 0)"
    and n1: "weight_scale (shardsR ! 1) = Some (Suc base)"
      "hR ! Suc base = partition_rule example_graph_lib (ShardingStrategy_rowwise 2)
                     (example_sharded_heap ROWWISE (ShardingStrategy_rowwise 2) ! 3) 1 (GPU 1)"
    by simp_all
  from lenR obtain a b where ab: "shardsR = [a, b]"
    by (auto simp: length_Suc_conv numeral_2_eq_2)
  have "4 \<le> base \<and> map weight_scale shardsR = [Some base, Some (Suc base)] \<and>
        map shape [hR ! base, hR ! Suc base] = [[4, 1], [4, 1]] \<and>
        map wdevice [hR ! base, hR ! Suc base] = [Some (GPU 0), Some (GPU 1)]"
    using base n0 n1 ab unfolding content(1)
    by (simp add: example_graph_lib_def Weight_init_def ShardingStrategy_rowwise_def)
  then have "\<exists>base. 4 \<le> base \<and> map weight_scale shardsR = [Some base, Some (Suc base)] \<and>
           map shape [hR ! base, hR ! Suc base] = [[4, 1], [4, 1]] \<and>
           map wdevice [hR ! base, hR ! Suc base] = [Some (GPU 0), Some (GPU 1)]"
    by (rule exI)
  with runT lenT T runR lenR R1 show ?thesis by simp
qed

subsection \<open>Validation of the float8 configuration\<close>

text \<open>
  Claim C6 (amended). Constructing a \<^verbatim>\<open>Float8Config\<close> validates nothing: the constructor
  returns the configuration whatever the granularities are. The granularities are checked
  when a \<^verbatim>\<open>Linear\<close> is constructed with the configuration: an input-scale granularity
  other than tensor or colwise, or a weight-scale granularity other than rowwise or
  tensor, makes \<^verbatim>\<open>Linear.__init__\<close> raise a \<^verbatim>\<open>ValueError\<close>, which names the offending
  input-scale granularity, or else the offending weight-scale granularity (unless the
  device check of the bias has failed before).
\<close>

theorem Linear_init_unsupported_granularity:
  fixes cfg :: Float8Config
  assumes "in_granularity (cfg_input_scale cfg) \<notin> {TENSOR, COLWISE} \<or>
           w_granularity (cfg_weight_scale cfg) \<notin> {ROWWISE, TENSOR}"
  shows "Float8Config_init (cfg_input_scale cfg) (cfg_weight_scale cfg) (mlp_in_float8 cfg)
           (attn_qkv_in_float8 cfg) (embedding_output_dtype cfg) (quant_method cfg) = Inr cfg \<and>
         Linear_init G h in_dim out_dim dt dev has_bias qe (Some cfg) nm clip =
           Inl (ValueError
             (if has_bias \<and>
                 wdevice (new_Weight G (attr_name nm ''bias'') dt [out_dim] dev qe) \<noteq>
                 wdevice (new_Weight G (attr_name nm ''weight'') dt [out_dim, in_dim] dev qe)
              then BiasDeviceMismatch
                     (wdevice (new_Weight G (attr_name nm ''bias'') dt [out_dim] dev qe))
                     (wdevice (new_Weight G (attr_name nm ''weight'') dt [out_dim, in_dim] dev qe))
              else if in_granularity (cfg_input_scale cfg) \<notin> {TENSOR, COLWISE}
              then UnsupportedInputScaleGranularity (in_granularity (cfg_input_scale cfg))
              else UnsupportedWeightScaleGranularity (w_granularity (cfg_weight_scale cfg))))"
  using assms
  by (auto simp: Float8Config_init_def Linear_init_def Linear_init_weights_def
      Linear_init_float8_def alloc_def bind_e_def nth_append Let_def is_rowwise_def is_tensor_def
      split: prod.splits)

text \<open>
  \<^verbatim>\<open>Linear(4, 8, float32, GPU(0), float8_config=cfg)\<close> for a configuration with a
  per-block input scale: the configuration is built, the layer is not.
\<close>

theorem Linear_init_unsupported_granularity_witness:
  "in_granularity (cfg_input_scale (example_float8 BLOCK DYNAMIC ROWWISE)) \<notin> {TENSOR, COLWISE} \<and>
   Float8Config_init \<lparr>in_granularity = BLOCK, in_origin = DYNAMIC, in_dtype = float32,
                       activation_scale_ub = None\<rparr>
     \<lparr>w_granularity = ROWWISE, w_dtype = float32\<rparr> {} {} None None
     = Inr (example_float8 BLOCK DYNAMIC ROWWISE) \<and>
   Linear_init example_graph_lib [] 4 8 float32 (Some (GPU 0)) False None
     (Some (example_float8 BLOCK DYNAMIC ROWWISE)) None None
     = Inl (ValueError (UnsupportedInputScaleGranularity BLOCK))"
proof -
  have bad: "in_granularity (cfg_input_scale (example_float8 BLOCK DYNAMIC ROWWISE))
               \<notin> {TENSOR, COLWISE}"
    by (simp add: example_float8_def)
  from Linear_init_unsupported_granularity[OF disjI1[OF bad],
      of example_graph_lib "[]" 4 8 float32 "Some (GPU 0)" False None None None] bad
  show ?thesis
    by (simp add: example_float8_def)
qed

text \<open>
  The claim as it stands has the configuration validated at its own construction. A
  \<^verbatim>\<open>Float8Config\<close> with \<^verbatim>\<open>input_scale.granularity = BLOCK\<close> (and a per-block weight scale)
  is constructed without an error.
\<close>

theorem Float8Config_init_block_counterexample:
  "Float8Config_init \<lparr>in_granularity = BLOCK, in_origin = DYNAMIC, in_dtype = float32,
                       activation_scale_ub = None\<rparr>
     \<lparr>w_granularity = BLOCK, w_dtype = float32\<rparr> {} {} None None
   = Inr (example_float8 BLOCK DYNAMIC BLOCK)"
  by (simp add: Float8Config_init_def example_float8_def)

subsection \<open>Tied weights in ColumnParallelLinear\<close>

text \<open>
  Claim C9 (amended). With a non-empty device list and a tied weight,
  \<^verbatim>\<open>ColumnParallelLinear.__init__\<close> raises the float8/bias \<^verbatim>\<open>ValueError\<close> whenever
  \<^verbatim>\<open>has_bias\<close> or \<^verbatim>\<open>float8_config\<close> is passed with a value other than \<^verbatim>\<open>None\<close>, the
  explicit \<^verbatim>\<open>has_bias=False\<close> included: the guard tests the keyword arguments with
  \<^verbatim>\<open>is not None\<close>, not for truth.
\<close>

theorem ColumnParallelLinear_init_tied_weight:
  assumes "devs \<noteq> []" and "tied_weight \<noteq> None"
    and "kw_has_bias kw \<noteq> None \<or> kw_float8_config kw \<noteq> None"
  shows "ColumnParallelLinear_init G h in_dim out_dim dt devs tied_weight kw
           = Inl (ValueError Float8AndBiasUnsupported)"
  using assms by (auto simp: ColumnParallelLinear_init_def)

text \<open>
  \<^verbatim>\<open>ColumnParallelLinear(4, 8, float32, devices=[GPU(0), GPU(1)], tied_weight=w, has_bias=False)\<close>.
\<close>

theorem ColumnParallelLinear_init_tied_weight_witness:
  "[GPU 0, GPU 1] \<noteq> [] \<and> Some (0 :: ref) \<noteq> None \<and>
   kw_has_bias \<lparr>kw_has_bias = Some False, kw_quantization_encoding = None,
                 kw_float8_config = None, kw_name = None, kw_clip_weight = None\<rparr> \<noteq> None \<and>
   ColumnParallelLinear_init example_graph_lib
     [Weight_init ''tied'' float32 [8, 4] None None] 4 8 float32 [GPU 0, GPU 1] (Some 0)
     \<lparr>kw_has_bias = Some False, kw_quantization_encoding = None, kw_float8_config = None,
      kw_name = None, kw_clip_weight = None\<rparr>
   = Inl (ValueError Float8AndBiasUnsupported)"
  using ColumnParallelLinear_init_tied_weight[of "[GPU 0, GPU 1]" "Some 0"
      "\<lparr>kw_has_bias = Some False, kw_quantization_encoding = None, kw_float8_config = None,
        kw_name = None, kw_clip_weight = None\<rparr>"
      example_graph_lib "[Weight_init ''tied'' float32 [8, 4] None None]" 4 8 float32]
  by simp

text \<open>
  The claim as it stands covers every construction with a tied weight. With an empty
  device list the first guard of the constructor fires instead, and the error is the one
  about the devices:
  \<^verbatim>\<open>ColumnParallelLinear(4, 8, float32, devices=[], tied_weight=w, has_bias=False)\<close>.
\<close>

theorem ColumnParallelLinear_init_empty_devices_counterexample:
  "ColumnParallelLinear_init example_graph_lib
     [Weight_init ''tied'' float32 [8, 4] None None] 4 8 float32 [] (Some 0)
     \<lparr>kw_has_bias = Some False, kw_quantization_encoding = None, kw_float8_config = None,
      kw_name = None, kw_clip_weight = None\<rparr>
   = Inl (ValueError EmptyDevices) \<and>
   ValueError EmptyDevices \<noteq> ValueError Float8AndBiasUnsupported"
  by (simp add: ColumnParallelLinear_init_def)

subsection \<open>The forward pass of the MLP\<close>

text \<open>The layers make no use of the fused gated-linear-unit kernel.\<close>

lemma Linear_call_swish_glu:
  "Linear_call (K\<lparr>swish_glu := g\<rparr>) V h layer = Linear_call K V h layer"
  unfolding Linear_call_def matmul_T_def add_bias_def Let_def
  by (rule ext) (simp cong: option.case_cong list.case_cong if_cong prod.case_cong)

lemma LinearV1_call_swish_glu:
  "LinearV1_call (K\<lparr>swish_glu := g\<rparr>) layer = LinearV1_call K layer"
  unfolding LinearV1_call_def matmul_T_def add_bias_def Let_def
  by (rule ext) (simp cong: option.case_cong list.case_cong if_cong prod.case_cong)

text \<open>
  Claim C7. For every input of \<^verbatim>\<open>MLP.__call__\<close> and of the deprecated
  \<^verbatim>\<open>MLPV1.__call__\<close>, the branch of the fused gated-linear-unit kernel \<^verbatim>\<open>swish_glu\<close> is
  never taken: its guard is false, and the result does not depend on what that kernel
  computes; it comes from the generic computation.
\<close>

theorem swish_glu_never_taken:
  "\<not> swish_glu_guard self x \<and> \<not> swish_glu_guard_V1 self1 x \<and>
   MLP_call (K\<lparr>swish_glu := g\<rparr>) V h self x = MLP_call K V h self x \<and>
   MLPV1_call (K\<lparr>swish_glu := g\<rparr>) self1 x = MLPV1_call K self1 x"
  by (simp add: swish_glu_guard_def swish_glu_guard_V1_def MLP_call_def MLPV1_call_def
      MLP_unfused_def MLP_unfused_hidden_def MLP_fused_hidden_def Linear_call_swish_glu
      LinearV1_call_swish_glu matmul_T_def add_bias_def tensor_mul_def Let_def
      cong: option.case_cong prod.case_cong list.case_cong if_cong)

lemmas call_defs = MLP_call_def MLP_unfused_def MLP_unfused_hidden_def MLP_fused_hidden_def
  Linear_call_def swish_glu_guard_def tensor_of_def to_device_def tensor_map_def matmul_T_def
  concat0_def add_bias_def tensor_mul_def split_axis1_def bind_e_def index_def Weight_init_def

text \<open>
  \<^verbatim>\<open>swish_glu\<close> replaced by a kernel that fails, on the MLP of the instance: the result is
  the one of the generic computation.
\<close>

theorem swish_glu_never_taken_witness:
  "\<not> swish_glu_guard (example_mlp None) example_input \<and>
   MLP_call (example_kernels\<lparr>swish_glu := (\<lambda>x g u. Inl ShapeError)\<rparr>) example_values
     example_mlp_heap (example_mlp None) example_input
   = Inr \<lparr>tdevice = Some (GPU 0), tshape = [1, 2], rows = [[32, 64]]\<rparr>"
proof -
  have "MLP_call example_kernels example_values example_mlp_heap (example_mlp None)
          example_input
        = Inr \<lparr>tdevice = Some (GPU 0), tshape = [1, 2], rows = [[32, 64]]\<rparr>"
    by (simp add: call_defs example_mlp_def example_mlp_heap_def example_values_def
        example_input_def example_kernels_def)
  with swish_glu_never_taken[where self = "example_mlp None" and x = example_input
      and K = example_kernels and g = "\<lambda>x g u. Inl ShapeError" and V = example_values
      and h = example_mlp_heap]
  show ?thesis by simp
qed



text \<open>
  \<^verbatim>\<open>MLP.__init__\<close> establishes these conditions: without a quantization encoding and a
  float8 configuration, and with a \<^verbatim>\<open>Weight\<close> constructor that stores what it is given,
  the gate and up projections it builds are in plain mode, have a bias together or not at
  all, and have weights of shape \<open>[feed_forward_length, hidden_dim]\<close> and biases of shape
  \<open>[feed_forward_length]\<close>.
\<close>

lemma Linear_init_no_float8:
  assumes "Linear_init G h i out dt dev hb qe None nm clip = Inr (self, h')"
  shows "self = \<lparr>weight = length h, bias = (if hb then Some (Suc (length h)) else None),
                  input_scale = None, weight_scale = None, device = dev, clip_weight = clip,
                  float8_config = None\<rparr>"
    and "h' = h @ new_Weight G (attr_name nm ''weight'') dt [out, i] dev qe #
                  (if hb then [new_Weight G (attr_name nm ''bias'') dt [out] dev qe] else [])"
  using assms unfolding Linear_init_def Linear_init_weights_def alloc_def
  by (auto simp: Let_def bind_e_def split: if_splits)

lemma MLP_init_plain:
  assumes W: "new_Weight G = Weight_init"
    and init: "MLP_init G K h dt None hidden ffl devs hb act None dgc = Inr (self, h')"
  shows "mlp_quantization_encoding self = None \<and> mlp_float8_config self = None \<and>
         dist_gemm_config self = dgc \<and>
         plain_Linear h' (gate_proj self) \<and> plain_Linear h' (up_proj self) \<and>
         (bias (gate_proj self) = None) = (bias (up_proj self) = None) \<and>
         shape (h' ! weight (gate_proj self)) = [ffl, hidden] \<and>
         shape (h' ! weight (up_proj self)) = [ffl, hidden] \<and>
         (\<forall>b. bias (gate_proj self) = Some b \<longrightarrow> shape (h' ! b) = [ffl]) \<and>
         (\<forall>b. bias (up_proj self) = Some b \<longrightarrow> shape (h' ! b) = [ffl])"
proof -
  from init obtain dev0 gate h1 down h2 up h3 fn where
    g: "Linear_init G h hidden ffl dt (Some dev0) hb None None None None = Inr (gate, h1)" and
    d: "Linear_init G h1 ffl hidden dt (Some dev0) hb None None None None = Inr (down, h2)" and
    u: "Linear_init G h2 hidden ffl dt (Some dev0) hb None None None None = Inr (up, h3)" and
    self: "self = \<lparr>mlp_devices = devs, mlp_num_devices = int (length devs),
               dist_gemm_config = dgc, hidden_dim = hidden, feed_forward_length = ffl,
               gate_proj = gate, down_proj = down, up_proj = up,
               mlp_quantization_encoding = None, mlp_float8_config = None,
               activation_function_name = act, activation_function = fn,
               mlp_sharding_strategy = None\<rparr>" and
    h': "h' = h3"
    unfolding MLP_init_def
    by (auto simp: bind_e_Inr_iff split: option.splits)
  note G = Linear_init_no_float8[OF g]
  note D = Linear_init_no_float8[OF d]
  note U = Linear_init_no_float8[OF u]
  show ?thesis
    unfolding self h' using G D U W
    by (cases hb) (simp_all add: plain_Linear_def Weight_init_def nth_append)
qed




text \<open>
  The conditions of the amended claim on the projections and on the input cannot be
  dropped either. The fused path takes the weights as they are and a bias only when both
  projections have one, and it splits along axis 1: on the MLP of the instance it differs
  from the computation without fusion when \<^verbatim>\<open>gate_proj\<close> has a \<^verbatim>\<open>clip_weight\<close>, when
  \<^verbatim>\<open>up_proj\<close> alone has lost its bias, and on an input of rank 3.
\<close>

lemma fused_path_outside_conditions:
  "MLP_call example_kernels example_values example_mlp_heap
     ((example_mlp None)\<lparr>gate_proj := (gate_proj (example_mlp None))\<lparr>clip_weight := Some 1\<rparr>\<rparr>)
     example_input
     = Inr \<lparr>tdevice = Some (GPU 0), tshape = [1, 2], rows = [[32, 64]]\<rparr>"
  "MLP_unfused example_kernels example_values example_mlp_heap
     ((example_mlp None)\<lparr>gate_proj := (gate_proj (example_mlp None))\<lparr>clip_weight := Some 1\<rparr>\<rparr>)
     example_input
     = Inr \<lparr>tdevice = Some (GPU 0), tshape = [1, 2], rows = [[24, 48]]\<rparr>"
  "MLP_call example_kernels example_values example_mlp_heap
     ((example_mlp None)\<lparr>up_proj := (up_proj (example_mlp None))\<lparr>bias := None\<rparr>\<rparr>)
     example_input
     = Inr \<lparr>tdevice = Some (GPU 0), tshape = [1, 2], rows = [[21, 42]]\<rparr>"
  "MLP_unfused example_kernels example_values example_mlp_heap
     ((example_mlp None)\<lparr>up_proj := (up_proj (example_mlp None))\<lparr>bias := None\<rparr>\<rparr>)
     example_input
     = Inr \<lparr>tdevice = Some (GPU 0), tshape = [1, 2], rows = [[28, 56]]\<rparr>"
  "MLP_call example_kernels example_values example_mlp_heap (example_mlp None)
     \<lparr>tdevice = Some (GPU 0), tshape = [1, 1, 2], rows = [[1, 1]]\<rparr>
     = Inl ShapeError"
  "MLP_unfused example_kernels example_values example_mlp_heap (example_mlp None)
     \<lparr>tdevice = Some (GPU 0), tshape = [1, 1, 2], rows = [[1, 1]]\<rparr>
     = Inr \<lparr>tdevice = Some (GPU 0), tshape = [1, 1, 2], rows = [[32, 64]]\<rparr>"
  by (simp_all add: call_defs example_mlp_def example_mlp_heap_def example_values_def
      example_input_def example_kernels_def)

end
